theory Spec2Isabelle
  imports Main "HOL-Library.Sublist"
begin

unbundle bit_operations_syntax

section \<open>The Remix Vite plugin (packages/remix-dev/vite/plugin.ts)\<close>

text \<open>
  A shallow embedding of the parts of \<^verbatim>\<open>plugin.ts\<close> that resolve the bundler manifest
  into per-route assets, check route exports, guard server-only files and keep the
  plugin context consistent under the file watcher. JavaScript strings are \<open>string\<close>;
  a thrown \<^verbatim>\<open>Error\<close> is the left summand of a result.
\<close>

subsection \<open>JavaScript built-ins used by the plugin\<close>

text \<open>\<^verbatim>\<open>array.join(sep)\<close> on an array of strings.\<close>

fun join :: "string \<Rightarrow> string list \<Rightarrow> string" where
  "join sep [] = []"
| "join sep [x] = x"
| "join sep (x # y # ys) = x @ sep @ join sep (y # ys)"

text \<open>\<^verbatim>\<open>s.startsWith(p)\<close> and \<^verbatim>\<open>s.endsWith(p)\<close>.\<close>

definition startsWith :: "string \<Rightarrow> string \<Rightarrow> bool" where
  "startsWith s p = prefix p s"

definition endsWith :: "string \<Rightarrow> string \<Rightarrow> bool" where
  "endsWith s p = suffix p s"

text \<open>
  \<^verbatim>\<open>new Set(array)\<close> keeps its elements in insertion order and ignores an element it
  already holds; \<^verbatim>\<open>set.add(x)\<close> is \<open>set_add\<close>, and the set is the list of its elements
  in that order.
\<close>

definition set_add :: "'a list \<Rightarrow> 'a \<Rightarrow> 'a list" where
  "set_add s x = (if x \<in> set s then s else s @ [x])"

definition new_Set :: "'a list \<Rightarrow> 'a list" where
  "new_Set xs = foldl set_add [] xs"

subsection \<open>dedupe\<close>

text \<open>\<^verbatim>\<open>function dedupe(array) { return [...new Set(array)]; }\<close>\<close>

definition dedupe :: "'a list \<Rightarrow> 'a list" where
  "dedupe array = new_Set array"

subsection \<open>Errors\<close>

text \<open>
  What a hook can throw: \<^verbatim>\<open>Error(message)\<close>, the \<^verbatim>\<open>TypeError\<close> of reading a property of
  \<^verbatim>\<open>undefined\<close>, and the \<^verbatim>\<open>RangeError\<close> of an exhausted call stack.
\<close>

datatype error = Error string | TypeError | RangeError

subsection \<open>Data\<close>

text \<open>
  Reading \<^verbatim>\<open>obj[key]\<close> of an ordinary object, one that \<^verbatim>\<open>JSON.parse\<close> or an object literal
  has built: the object's own property of that name, and for a name the object does not
  have, what it inherits from \<^verbatim>\<open>Object.prototype\<close>. That is a function for eleven names and
  \<^verbatim>\<open>Object.prototype\<close> itself for \<^verbatim>\<open>__proto__\<close>; none of the twelve values is falsy, and none
  has a property that the plugin reads. An object is the list of its own properties in
  the order of \<^verbatim>\<open>Object.keys\<close>, and \<open>None\<close> is \<^verbatim>\<open>undefined\<close>.
\<close>

definition Object_prototype_keys :: "string list" where
  "Object_prototype_keys =
     [''constructor'', ''__defineGetter__'', ''__defineSetter__'', ''hasOwnProperty'',
      ''__lookupGetter__'', ''__lookupSetter__'', ''isPrototypeOf'', ''propertyIsEnumerable'',
      ''toString'', ''valueOf'', ''__proto__'', ''toLocaleString'']"

datatype 'a property = Own 'a | Inherited

definition js_get :: "(string \<times> 'a) list \<Rightarrow> string \<Rightarrow> 'a property option" where
  "js_get obj key =
     (case map_of obj key of
        Some v \<Rightarrow> Some (Own v)
      | None \<Rightarrow> if key \<in> set Object_prototype_keys then Some Inherited else None)"

text \<open>\<^verbatim>\<open>`${v}`\<close> of a string or of \<^verbatim>\<open>undefined\<close>.\<close>

definition interpolate :: "string option \<Rightarrow> string" where
  "interpolate v = (case v of Some s \<Rightarrow> s | None \<Rightarrow> ''undefined'')"

text \<open>
  \<^verbatim>\<open>Vite.ManifestChunk\<close>, with the fields the plugin reads; \<^verbatim>\<open>imports\<close> and \<^verbatim>\<open>css\<close> are
  optional. \<^verbatim>\<open>Vite.Manifest\<close> is an object from keys to chunks. The manifest comes from
  \<^verbatim>\<open>JSON.parse\<close>, which builds one chunk object per key. What \<^verbatim>\<open>viteManifest[key]\<close> gives
  (\<open>manifest_get\<close>) is a \<open>chunk_obj\<close>: the key, which stands for the identity of the object,
  with the chunk, or with \<open>Inherited\<close> for a member of \<^verbatim>\<open>Object.prototype\<close>. \<open>file_of\<close> is
  \<^verbatim>\<open>chunk.file\<close> of such an object.
\<close>

record ManifestChunk =
  c_file :: string
  c_imports :: "string list option"
  c_css :: "string list option"

type_synonym Manifest = "(string \<times> ManifestChunk) list"

type_synonym chunk_obj = "string \<times> ManifestChunk property"

definition manifest_get :: "Manifest \<Rightarrow> string \<Rightarrow> chunk_obj option" where
  "manifest_get viteManifest key = map_option (Pair key) (js_get viteManifest key)"

definition file_of :: "chunk_obj \<Rightarrow> string option" where
  "file_of chunk = (case snd chunk of Own c \<Rightarrow> Some (c_file c) | Inherited \<Rightarrow> None)"

text \<open>
  A \<^verbatim>\<open>Set<Vite.ManifestChunk>\<close> holds objects by identity, in insertion order.
\<close>

definition chunks_has :: "chunk_obj list \<Rightarrow> chunk_obj \<Rightarrow> bool" where
  "chunks_has chunks chunk = (fst chunk \<in> set (map fst chunks))"

definition chunks_add :: "chunk_obj list \<Rightarrow> chunk_obj \<Rightarrow> chunk_obj list" where
  "chunks_add chunks chunk = (if chunks_has chunks chunk then chunks else chunks @ [chunk])"

text \<open>\<^verbatim>\<open>ConfigRoute\<close> (config/routes.ts) and the route manifest, in \<^verbatim>\<open>Object.values\<close> order.\<close>

record ConfigRoute =
  r_path :: "string option"
  r_index :: "bool option"
  r_caseSensitive :: "bool option"
  r_id :: string
  r_parentId :: "string option"
  r_file :: string

type_synonym RouteManifest = "(string \<times> ConfigRoute) list"

text \<open>
  \<^verbatim>\<open>ResolvedVitePluginConfig\<close>. The adapter and the \<^verbatim>\<open>serverBundles\<close> function are objects
  the modelled code never looks into: a \<open>js_ref\<close> is the address of one.
\<close>

datatype js_ref = Ref nat

record ResolvedVitePluginConfig =
  adapter :: "js_ref option"
  appDirectory :: string
  buildDirectory :: string
  future :: "(string \<times> bool) list"
  manifest :: bool
  publicPath :: string
  routes :: RouteManifest
  serverBuildFile :: string
  serverBundles :: "js_ref option"
  serverModuleFormat :: string
  unstable_ssr :: bool

text \<open>\<^verbatim>\<open>RemixPluginContext\<close>; \<^verbatim>\<open>getBrowserManifest\<close> is \<open>createBrowserManifestForBuild\<close> below.\<close>

record RemixPluginContext =
  rootDirectory :: string
  entryClientFilePath :: string
  entryServerFilePath :: string
  remixConfig :: ResolvedVitePluginConfig
  isSsrBuild :: bool
  serverBundleId :: "string option"

subsection \<open>Externals\<close>

text \<open>
  Functions of Node, Vite and the other modules the plugin imports. They are parameters of
  the model: \<^verbatim>\<open>vite.normalizePath\<close>, \<^verbatim>\<open>path.relative\<close>, \<^verbatim>\<open>path.join\<close>,
  \<^verbatim>\<open>path.resolve\<close>, \<^verbatim>\<open>path.basename\<close>, the export names
  \<^verbatim>\<open>esModuleLexer(code)[1].map(e => e.n)\<close> (the lexer throws on code it cannot read),
  \<^verbatim>\<open>removeExports\<close> of \<^verbatim>\<open>./remove-exports\<close> (it parses the code, and throws when it cannot),
  \<^verbatim>\<open>isCssModulesFile\<close> of \<^verbatim>\<open>./styles\<close>, \<^verbatim>\<open>resolveFileUrl\<close> of \<^verbatim>\<open>./resolve-file-url\<close>,
  \<^verbatim>\<open>id\<close>, \<^verbatim>\<open>resolve\<close> and \<^verbatim>\<open>url\<close> of \<^verbatim>\<open>./vmod\<close>, what \<^verbatim>\<open>invariant\<close> of \<^verbatim>\<open>../invariant\<close>
  throws on a falsy value, \<^verbatim>\<open>fse.readFile\<close>, \<^verbatim>\<open>colors.red\<close>,
  \<^verbatim>\<open>createHash("sha256").update(source).digest("hex")\<close>, \<^verbatim>\<open>JSON.stringify\<close> of a resolved
  plugin config, \<^verbatim>\<open>JSON.parse\<close> of the text of a Vite manifest, and the error, if any, of
  creating the directory of a file and writing the file (\<^verbatim>\<open>writeFileSafe\<close>).
\<close>

record ext =
  normalizePath :: "string \<Rightarrow> string"
  path_relative :: "string \<Rightarrow> string \<Rightarrow> string"
  path_join :: "string \<Rightarrow> string \<Rightarrow> string"
  path_resolve :: "string \<Rightarrow> string \<Rightarrow> string"
  path_basename :: "string \<Rightarrow> string"
  esModuleLexer_exports :: "string \<Rightarrow> error + string list"
  removeExports :: "string \<Rightarrow> string list \<Rightarrow> error + string"
  isCssModulesFile :: "string \<Rightarrow> bool"
  resolveFileUrl :: "RemixPluginContext \<Rightarrow> string \<Rightarrow> string"
  vmod_id :: "string \<Rightarrow> string"
  vmod_resolve :: "string \<Rightarrow> string"
  vmod_url :: "string \<Rightarrow> string"
  invariant_error :: error
  fse_readFile :: "string \<Rightarrow> error + string"
  colors_red :: "string \<Rightarrow> string"
  sha256_hex :: "string \<Rightarrow> string"
  JSON_stringify_config :: "ResolvedVitePluginConfig \<Rightarrow> string"
  JSON_parse_manifest :: "string \<Rightarrow> error + Manifest"
  writeFileSafe_error :: "string \<Rightarrow> error option"

subsection \<open>Constants\<close>

definition SERVER_ONLY_ROUTE_EXPORTS :: "string list" where
  "SERVER_ONLY_ROUTE_EXPORTS = [''loader'', ''action'', ''headers'']"

definition CLIENT_ROUTE_EXPORTS :: "string list" where
  "CLIENT_ROUTE_EXPORTS =
     [''clientAction'', ''clientLoader'', ''default'', ''ErrorBoundary'', ''handle'',
      ''HydrateFallback'', ''links'', ''meta'', ''shouldRevalidate'']"

definition CLIENT_ROUTE_QUERY_STRING :: string where
  "CLIENT_ROUTE_QUERY_STRING = ''?client-route''"

text \<open>The characters \<^verbatim>\<open>"\<close>, \<^verbatim>\<open>`\<close>, \<^verbatim>\<open>'\<close> and the line feed, for the messages.\<close>

definition dquote :: string where "dquote = [CHR 0x22]"
definition backtick :: string where "backtick = [CHR 0x60]"
definition squote :: string where "squote = [CHR 0x27]"
definition newline :: string where "newline = [CHR 0x0A]"

subsection \<open>resolveChunk\<close>

text \<open>
  \<open>a ?? b\<close> takes \<open>b\<close> when \<open>a\<close> is undefined; no object that a read of the manifest gives is
  falsy.
\<close>

definition rootRelative :: "ext \<Rightarrow> RemixPluginContext \<Rightarrow> string \<Rightarrow> string" where
  "rootRelative x ctx absoluteFilePath =
     normalizePath x (path_relative x (rootDirectory ctx) absoluteFilePath)"

definition knownManifestKeys :: "Manifest \<Rightarrow> string" where
  "knownManifestKeys viteManifest =
     join '', '' (map (\<lambda>key. dquote @ key @ dquote) (map fst viteManifest))"

definition resolveChunk ::
  "ext \<Rightarrow> RemixPluginContext \<Rightarrow> Manifest \<Rightarrow> string \<Rightarrow> error + chunk_obj" where
  "resolveChunk x ctx viteManifest absoluteFilePath =
     (let rootRelativeFilePath = rootRelative x ctx absoluteFilePath
      in case manifest_get viteManifest (rootRelativeFilePath @ CLIENT_ROUTE_QUERY_STRING) of
           Some entryChunk \<Rightarrow> Inr entryChunk
         | None \<Rightarrow>
            (case manifest_get viteManifest rootRelativeFilePath of
               Some entryChunk \<Rightarrow> Inr entryChunk
             | None \<Rightarrow>
                 Inl (Error (''No manifest entry found for '' @ dquote @ rootRelativeFilePath
                       @ dquote @ ''. Known manifest keys: ''
                       @ knownManifestKeys viteManifest))))"

subsection \<open>resolveDependantChunks\<close>

text \<open>
  \<open>walk\<close> is the inner function and \<open>walk_imports\<close> its \<^verbatim>\<open>for ... of\<close> loop over the import
  keys; the set \<open>chunks\<close> is threaded through. The first argument is the depth of call
  stack left: JavaScript throws a \<^verbatim>\<open>RangeError\<close> when a recursion runs out of it.
  \<^verbatim>\<open>walk(undefined)\<close> finds \<^verbatim>\<open>undefined\<close> not in the set, and reading its \<^verbatim>\<open>imports\<close>
  throws a \<^verbatim>\<open>TypeError\<close>.
\<close>

definition imports_of :: "chunk_obj \<Rightarrow> string list" where
  "imports_of chunk =
     (case snd chunk of
        Own c \<Rightarrow> (case c_imports c of None \<Rightarrow> [] | Some keys \<Rightarrow> keys)
      | Inherited \<Rightarrow> [])"

definition css_of :: "chunk_obj \<Rightarrow> string list" where
  "css_of chunk =
     (case snd chunk of
        Own c \<Rightarrow> (case c_css c of None \<Rightarrow> [] | Some hrefs \<Rightarrow> hrefs)
      | Inherited \<Rightarrow> [])"

fun walk :: "nat \<Rightarrow> Manifest \<Rightarrow> chunk_obj list \<Rightarrow> chunk_obj option \<Rightarrow> error + chunk_obj list"
and walk_imports :: "nat \<Rightarrow> Manifest \<Rightarrow> chunk_obj list \<Rightarrow> string list \<Rightarrow> error + chunk_obj list"
where
  "walk 0 viteManifest chunks chunk = Inl RangeError"
| "walk (Suc depth) viteManifest chunks None = Inl TypeError"
| "walk (Suc depth) viteManifest chunks (Some chunk) =
     (if chunks_has chunks chunk then Inr chunks
      else case walk_imports depth viteManifest chunks (imports_of chunk) of
             Inl e \<Rightarrow> Inl e
           | Inr chunks' \<Rightarrow> Inr (chunks_add chunks' chunk))"
| "walk_imports depth viteManifest chunks [] = Inr chunks"
| "walk_imports depth viteManifest chunks (importKey # rest) =
     (case walk depth viteManifest chunks (manifest_get viteManifest importKey) of
        Inl e \<Rightarrow> Inl e
      | Inr chunks' \<Rightarrow> walk_imports depth viteManifest chunks' rest)"

text \<open>The loop over the entry chunks.\<close>

fun walk_entries :: "nat \<Rightarrow> Manifest \<Rightarrow> chunk_obj list \<Rightarrow> chunk_obj list \<Rightarrow> error + chunk_obj list" where
  "walk_entries stack viteManifest chunks [] = Inr chunks"
| "walk_entries stack viteManifest chunks (entryChunk # rest) =
     (case walk stack viteManifest chunks (Some entryChunk) of
        Inl e \<Rightarrow> Inl e
      | Inr chunks' \<Rightarrow> walk_entries stack viteManifest chunks' rest)"

definition resolveDependantChunks ::
  "nat \<Rightarrow> Manifest \<Rightarrow> chunk_obj list \<Rightarrow> error + chunk_obj list" where
  "resolveDependantChunks stack viteManifest entryChunks =
     walk_entries stack viteManifest [] entryChunks"

subsection \<open>resolveBuildAssetPaths\<close>

text \<open>
  The result \<^verbatim>\<open>{ module, imports, css }\<close>. \<open>resolveChunks\<close> is the \<^verbatim>\<open>map\<close> of
  \<open>resolveChunk\<close> over the prepended paths. \<open>import_url\<close> is the function that the
  \<^verbatim>\<open>map\<close> over the import keys applies,
  \<^verbatim>\<open>`${ctx.remixConfig.publicPath}${viteManifest[imported].file}`\<close>, which throws a
  \<^verbatim>\<open>TypeError\<close> when \<^verbatim>\<open>viteManifest[imported]\<close> is \<^verbatim>\<open>undefined\<close>, and \<open>import_urls\<close> is that
  \<^verbatim>\<open>map\<close>.
\<close>

record AssetPaths =
  a_module :: string
  a_imports :: "string list"
  a_css :: "string list"

fun resolveChunks ::
  "ext \<Rightarrow> RemixPluginContext \<Rightarrow> Manifest \<Rightarrow> string list \<Rightarrow> error + chunk_obj list" where
  "resolveChunks x ctx viteManifest [] = Inr []"
| "resolveChunks x ctx viteManifest (filePath # rest) =
     (case resolveChunk x ctx viteManifest filePath of
        Inl e \<Rightarrow> Inl e
      | Inr chunk \<Rightarrow>
         (case resolveChunks x ctx viteManifest rest of
            Inl e \<Rightarrow> Inl e
          | Inr chunks \<Rightarrow> Inr (chunk # chunks)))"

definition import_url :: "string \<Rightarrow> Manifest \<Rightarrow> string \<Rightarrow> error + string" where
  "import_url pp viteManifest imported =
     (case manifest_get viteManifest imported of
        None \<Rightarrow> Inl TypeError
      | Some chunk \<Rightarrow> Inr (pp @ interpolate (file_of chunk)))"

fun import_urls :: "string \<Rightarrow> Manifest \<Rightarrow> string list \<Rightarrow> error + string list" where
  "import_urls pp viteManifest [] = Inr []"
| "import_urls pp viteManifest (imported # rest) =
     (case import_url pp viteManifest imported of
        Inl e \<Rightarrow> Inl e
      | Inr url \<Rightarrow>
         (case import_urls pp viteManifest rest of
            Inl e \<Rightarrow> Inl e
          | Inr urls \<Rightarrow> Inr (url # urls)))"

definition resolveBuildAssetPaths ::
  "ext \<Rightarrow> nat \<Rightarrow> RemixPluginContext \<Rightarrow> Manifest \<Rightarrow> string \<Rightarrow> string list \<Rightarrow> error + AssetPaths" where
  "resolveBuildAssetPaths x stack ctx viteManifest entryFilePath prependedAssetFilePaths =
     (case resolveChunk x ctx viteManifest entryFilePath of
        Inl e \<Rightarrow> Inl e
      | Inr entryChunk \<Rightarrow>
     (case resolveChunks x ctx viteManifest prependedAssetFilePaths of
        Inl e \<Rightarrow> Inl e
      | Inr prependedAssetChunks \<Rightarrow>
     (case resolveDependantChunks stack viteManifest (prependedAssetChunks @ [entryChunk]) of
        Inl e \<Rightarrow> Inl e
      | Inr chunks \<Rightarrow>
     (case import_urls (publicPath (remixConfig ctx)) viteManifest
             (dedupe (concat (map imports_of chunks))) of
        Inl e \<Rightarrow> Inl e
      | Inr imports_urls \<Rightarrow>
          Inr \<lparr> a_module = publicPath (remixConfig ctx) @ interpolate (file_of entryChunk)
                             @ CLIENT_ROUTE_QUERY_STRING,
                a_imports = imports_urls,
                a_css = map (\<lambda>href. publicPath (remixConfig ctx) @ href)
                          (dedupe (concat (map css_of chunks))) \<rparr>))))"

subsection \<open>getRoute\<close>

definition getRoute :: "ext \<Rightarrow> ResolvedVitePluginConfig \<Rightarrow> string \<Rightarrow> ConfigRoute option" where
  "getRoute x pluginConfig file =
     (if \<not> startsWith file (normalizePath x (appDirectory pluginConfig)) then None
      else find (\<lambda>r. r_file r = normalizePath x (path_relative x (appDirectory pluginConfig) file))
             (map snd (routes pluginConfig)))"

subsection \<open>getRouteModuleExports\<close>

text \<open>
  The Vite child compiler, as far as the plugin uses it: \<^verbatim>\<open>pluginContainer.resolveId\<close>,
  which gives the module id of a URL or nothing, and \<^verbatim>\<open>pluginContainer.transform\<close> of the
  code under that id. \<^verbatim>\<open>viteChildCompiler\<close> is \<^verbatim>\<open>null\<close> until \<^verbatim>\<open>configResolved\<close> has run.
  \<open>readRouteFile\<close> is what the optional callback of that name returns when called. The
  resolution and the read run under one \<^verbatim>\<open>Promise.all\<close>; when both fail, the model
  reports the failure of the resolution.
\<close>

record child_compiler =
  cc_resolveId :: "string \<Rightarrow> string option"
  cc_transform :: "string \<Rightarrow> string \<Rightarrow> error + string"

definition getRouteModuleExports ::
  "ext \<Rightarrow> child_compiler option \<Rightarrow> RemixPluginContext \<Rightarrow> string \<Rightarrow> (error + string) option
     \<Rightarrow> error + string list" where
  "getRouteModuleExports x viteChildCompiler ctx routeFile readRouteFile =
     (case viteChildCompiler of
        None \<Rightarrow> Inl (Error ''Vite child compiler not found'')
      | Some cc \<Rightarrow>
         (let routePath = path_resolve x (appDirectory (remixConfig ctx)) routeFile;
              url = resolveFileUrl x ctx routePath
          in case cc_resolveId cc url of
               None \<Rightarrow> Inl (Error (''Could not resolve module ID for '' @ url))
             | Some id' \<Rightarrow>
                (case (case readRouteFile of Some r \<Rightarrow> r | None \<Rightarrow> fse_readFile x routePath) of
                   Inl e \<Rightarrow> Inl e
                 | Inr code \<Rightarrow>
                    (case cc_transform cc code id' of
                       Inl e \<Rightarrow> Inl e
                     | Inr transformed \<Rightarrow> esModuleLexer_exports x transformed))))"

subsection \<open>The transform hook of the plugin \<^verbatim>\<open>remix\<close>\<close>

text \<open>\<^verbatim>\<open>s.replace(pattern, replacement)\<close> with a string pattern replaces its first occurrence.\<close>

fun replace_first :: "string \<Rightarrow> string \<Rightarrow> string \<Rightarrow> string" where
  "replace_first pat rep [] = (if pat = [] then rep else [])"
| "replace_first pat rep (c # cs) =
     (if prefix pat (c # cs) then rep @ drop (length pat) (c # cs)
      else c # replace_first pat rep cs)"

text \<open>
  The hook records the code of a CSS modules file in \<^verbatim>\<open>cssModulesManifest\<close>, and answers a
  request for the client-route variant of a route module. It returns the new
  \<^verbatim>\<open>cssModulesManifest\<close> with its result; \<open>Inr None\<close> is \<^verbatim>\<open>undefined\<close>.
\<close>

definition remix_transform ::
  "ext \<Rightarrow> child_compiler option \<Rightarrow> RemixPluginContext \<Rightarrow> (string \<rightharpoonup> string) \<Rightarrow> string \<Rightarrow> string
     \<Rightarrow> (string \<rightharpoonup> string) \<times> (error + string option)" where
  "remix_transform x viteChildCompiler ctx cssModulesManifest code id' =
     (let cssModulesManifest' =
            (if isCssModulesFile x id' then cssModulesManifest(id' \<mapsto> code) else cssModulesManifest)
      in if endsWith id' CLIENT_ROUTE_QUERY_STRING then
           (let routeModuleId = replace_first CLIENT_ROUTE_QUERY_STRING [] id'
            in case getRouteModuleExports x viteChildCompiler ctx routeModuleId None of
                 Inl e \<Rightarrow> (cssModulesManifest', Inl e)
               | Inr sourceExports \<Rightarrow>
                  (let routeFileName = path_basename x routeModuleId;
                       clientExports =
                         join '', '' (filter (\<lambda>exportName. exportName \<in> set CLIENT_ROUTE_EXPORTS)
                                       sourceExports)
                   in (cssModulesManifest',
                       Inr (Some (''export { '' @ clientExports @ '' } from '' @ dquote @ ''./''
                                  @ routeFileName @ dquote @ '';'')))))
         else (cssModulesManifest', Inr None))"

subsection \<open>The resolveId hook of the plugin \<^verbatim>\<open>remix-dot-server\<close>\<close>

text \<open>
  \<^verbatim>\<open>/\.server(\.[cm]?[jt]sx?)?$/\<close> matches a string that ends with \<^verbatim>\<open>.server\<close>, or with
  \<^verbatim>\<open>.server.\<close> and one of twelve extensions; \<^verbatim>\<open>/\/\.server\//\<close> matches a string that
  contains \<^verbatim>\<open>/.server/\<close>.
\<close>

definition server_extensions :: "string list" where
  "server_extensions =
     concat (map (\<lambda>m. concat (map (\<lambda>l. map (\<lambda>e. m @ l @ ''s'' @ e) [[], ''x''])
                                  [''j'', ''t'']))
                 [[], ''c'', ''m''])"

definition serverFileRE_test :: "string \<Rightarrow> bool" where
  "serverFileRE_test s =
     (endsWith s ''.server'' \<or> list_ex (\<lambda>e. endsWith s (''.server.'' @ e)) server_extensions)"

definition serverDirRE_test :: "string \<Rightarrow> bool" where
  "serverDirRE_test s = sublist ''/.server/'' s"

datatype command = build | serve

text \<open>
  The \<^verbatim>\<open>options\<close> of the hook: \<^verbatim>\<open>ssr\<close> and \<^verbatim>\<open>custom["remix-dot-server"]\<close>, each of which
  may be missing. Assigning to \<^verbatim>\<open>options.custom\<close> throws when \<^verbatim>\<open>options\<close> itself is
  missing. \<^verbatim>\<open>this.resolve\<close> is a parameter, from the id and the importer to the resolved
  id.
\<close>

record resolve_options =
  o_ssr :: "bool option"
  o_custom_remix_dot_server :: "bool option"

definition server_only_message :: "ext \<Rightarrow> string \<Rightarrow> string \<Rightarrow> bool \<Rightarrow> string" where
  "server_only_message x id' importerShort isRoute =
     (if isRoute then
        join newline
          [colors_red x ''Server-only module referenced by client'',
           [],
           ''    '' @ squote @ id' @ squote @ '' imported by route '' @ squote @ importerShort @ squote,
           [],
           ''  Remix automatically removes server-code from these exports:'',
           ''    '' @ join '', '' (map (\<lambda>xport. backtick @ xport @ backtick) SERVER_ONLY_ROUTE_EXPORTS),
           [],
           ''  But other route exports in '' @ squote @ importerShort @ squote @ '' depend on ''
             @ squote @ id' @ squote @ ''.'',
           [],
           ''  See https://remix.run/docs/en/main/future/vite#splitting-up-client-and-server-code'',
           []]
      else
        join newline
          [colors_red x ''Server-only module referenced by client'',
           [],
           ''    '' @ squote @ id' @ squote @ '' imported by '' @ squote @ importerShort @ squote,
           [],
           ''  See https://remix.run/docs/en/main/future/vite#splitting-up-client-and-server-code'',
           []])"

definition dotServer_resolveId ::
  "ext \<Rightarrow> command \<Rightarrow> RemixPluginContext \<Rightarrow> (string \<Rightarrow> string option \<Rightarrow> string option)
     \<Rightarrow> string \<Rightarrow> string option \<Rightarrow> resolve_options option \<Rightarrow> error + string option" where
  "dotServer_resolveId x viteCommand ctx this_resolve id' importer options =
     (if (case options of None \<Rightarrow> False | Some opts \<Rightarrow> o_ssr opts = Some True) then Inr None
      else if (case options of None \<Rightarrow> False
               | Some opts \<Rightarrow> o_custom_remix_dot_server opts = Some True) then Inr None
      else case options of
        None \<Rightarrow> Inl TypeError
      | Some opts \<Rightarrow>
         (case this_resolve id' importer of
            None \<Rightarrow> Inr None
          | Some resolved_id \<Rightarrow>
             if \<not> (serverFileRE_test resolved_id \<or> serverDirRE_test resolved_id) then Inr None
             else case importer of
               None \<Rightarrow> Inr None
             | Some imp \<Rightarrow>
                if imp = [] then Inr None
                else if viteCommand \<noteq> build \<and> endsWith imp ''.html'' then Inr None
                else
                  (let importerShort = normalizePath x (path_relative x (rootDirectory ctx) imp)
                   in Inl (Error (server_only_message x id' importerShort
                                    (getRoute x (remixConfig ctx) imp \<noteq> None))))))"

subsection \<open>The transform hook of the plugin \<^verbatim>\<open>remix-route-exports\<close>\<close>

text \<open>\<^verbatim>\<open>`${n}`\<close> of a length: its decimal digits.\<close>

definition digit :: "nat \<Rightarrow> char" where
  "digit n = ''0123456789'' ! n"

function string_of_nat :: "nat \<Rightarrow> string" where
  "string_of_nat n = (if n < 10 then [digit n] else string_of_nat (n div 10) @ [digit (n mod 10)])"
  by pat_completeness auto
termination
  by (relation "measure (\<lambda>n. n)") auto

declare string_of_nat.simps [simp del]

definition spa_invalid_exports_message :: "ConfigRoute \<Rightarrow> string list \<Rightarrow> string" where
  "spa_invalid_exports_message route serverOnlyExports =
     ''SPA Mode: '' @ string_of_nat (length serverOnlyExports) @ '' invalid route export(s) in ''
     @ backtick @ r_file route @ backtick @ '': ''
     @ join '', '' (map (\<lambda>e. backtick @ e @ backtick) serverOnlyExports)
     @ ''. See https://remix.run/future/spa-mode '' @ ''for more information.''"

definition spa_hydrate_fallback_message :: "ConfigRoute \<Rightarrow> string" where
  "spa_hydrate_fallback_message route =
     ''SPA Mode: Invalid '' @ backtick @ ''HydrateFallback'' @ backtick @ '' export found in ''
     @ backtick @ r_file route @ backtick @ ''. '' @ backtick @ ''HydrateFallback'' @ backtick
     @ '' is only permitted on '' @ ''the root route in SPA Mode. See https://remix.run/future/spa-mode ''
     @ ''for more information.''"

text \<open>
  The two checks made when \<^verbatim>\<open>unstable_ssr\<close> is false: \<open>Some e\<close> is the error thrown,
  \<open>None\<close> means that both pass.
\<close>

definition spa_mode_checks :: "ext \<Rightarrow> ConfigRoute \<Rightarrow> string \<Rightarrow> error option" where
  "spa_mode_checks x route code =
     (case esModuleLexer_exports x code of
        Inl e \<Rightarrow> Some e
      | Inr names \<Rightarrow>
         (let serverOnlyExports = filter (\<lambda>exp. exp \<in> set SERVER_ONLY_ROUTE_EXPORTS) names
          in if length serverOnlyExports > 0
             then Some (Error (spa_invalid_exports_message route serverOnlyExports))
             else if r_id route \<noteq> ''root'' then
               (case esModuleLexer_exports x code of
                  Inl e \<Rightarrow> Some e
                | Inr names' \<Rightarrow>
                    if list_ex (\<lambda>exp. exp = ''HydrateFallback'') names'
                    then Some (Error (spa_hydrate_fallback_message route))
                    else None)
             else None))"

definition routeExports_transform ::
  "ext \<Rightarrow> RemixPluginContext \<Rightarrow> string \<Rightarrow> string \<Rightarrow> bool \<Rightarrow> error + string option" where
  "routeExports_transform x ctx code id' ssr =
     (if ssr then Inr None
      else case getRoute x (remixConfig ctx) id' of
        None \<Rightarrow> Inr None
      | Some route \<Rightarrow>
         (case (if \<not> unstable_ssr (remixConfig ctx) then spa_mode_checks x route code else None) of
            Some e \<Rightarrow> Inl e
          | None \<Rightarrow>
             (case removeExports x code SERVER_ONLY_ROUTE_EXPORTS of
                Inl e \<Rightarrow> Inl e
              | Inr code' \<Rightarrow> Inr (Some code'))))"

text \<open>The hook threw nothing and returned code.\<close>

definition returns_code :: "error + string option \<Rightarrow> bool" where
  "returns_code result = (case result of Inr (Some code) \<Rightarrow> True | Inr None \<Rightarrow> False | Inl e \<Rightarrow> False)"

subsection \<open>The dev server and the virtual modules\<close>

text \<open>
  An entry of \<^verbatim>\<open>BrowserManifest["routes"]\<close>; \<^verbatim>\<open>getRouteMetadata\<close> adds a \<^verbatim>\<open>url\<close> and leaves
  \<^verbatim>\<open>css\<close> out.
\<close>

record ManifestRoute =
  m_id :: string
  m_parentId :: "string option"
  m_path :: "string option"
  m_index :: "bool option"
  m_caseSensitive :: "bool option"
  m_url :: "string option"
  m_module :: string
  m_hasAction :: bool
  m_hasLoader :: bool
  m_hasClientAction :: bool
  m_hasClientLoader :: bool
  m_hasErrorBoundary :: bool
  m_imports :: "string list"
  m_css :: "string list option"

text \<open>
  Of the dev server: the ids of the modules in its module graph, the modules that
  \<^verbatim>\<open>moduleGraph.invalidateModule\<close> was called on, by id and in order, and the messages sent
  over the web socket. A message \<^verbatim>\<open>{ type: "custom", event, data: { route } }\<close> is
  \<open>Custom event route\<close>.
\<close>

datatype ws_message = Custom string "ManifestRoute option"

record ViteDevServer =
  moduleGraph :: "string list"
  invalidated :: "string list"
  ws_sent :: "ws_message list"

definition serverBuildId :: "ext \<Rightarrow> string" where
  "serverBuildId x = vmod_id x ''server-build''"

definition serverManifestId :: "ext \<Rightarrow> string" where
  "serverManifestId x = vmod_id x ''server-manifest''"

definition browserManifestId :: "ext \<Rightarrow> string" where
  "browserManifestId x = vmod_id x ''browser-manifest''"

definition vmods :: "ext \<Rightarrow> string list" where
  "vmods x = [serverBuildId x, serverManifestId x, browserManifestId x]"

definition invalidateVirtualModules :: "ext \<Rightarrow> ViteDevServer \<Rightarrow> ViteDevServer" where
  "invalidateVirtualModules x viteDevServer =
     foldl (\<lambda>srv vmod.
              if vmod_resolve x vmod \<in> set (moduleGraph srv)
              then srv \<lparr> invalidated := invalidated srv @ [vmod_resolve x vmod] \<rparr>
              else srv)
       viteDevServer (vmods x)"

definition ws_send :: "ViteDevServer \<Rightarrow> ws_message \<Rightarrow> ViteDevServer" where
  "ws_send srv msg = srv \<lparr> ws_sent := ws_sent srv @ [msg] \<rparr>"

subsection \<open>The file watcher of configureServer\<close>

text \<open>
  The state the handler works on: the plugin's \<^verbatim>\<open>ctx\<close>, \<^verbatim>\<open>viteConfig?.configFile\<close>, the dev
  server, and a count of the runs of \<^verbatim>\<open>updateRemixPluginContext\<close>. That function resolves
  the config again from the files and the user's options; the context it computes at the
  time of the event, or the error it throws, is a parameter. It assigns \<^verbatim>\<open>ctx\<close> as its
  last step.
\<close>

record plugin_state =
  p_ctx :: RemixPluginContext
  p_configFile :: "string option"
  p_server :: ViteDevServer
  p_updates :: nat

definition isEqualJson ::
  "ext \<Rightarrow> ResolvedVitePluginConfig \<Rightarrow> ResolvedVitePluginConfig \<Rightarrow> bool" where
  "isEqualJson x v1 v2 = (JSON_stringify_config x v1 = JSON_stringify_config x v2)"

definition appFileAddedOrRemoved :: "ext \<Rightarrow> plugin_state \<Rightarrow> string \<Rightarrow> string \<Rightarrow> bool" where
  "appFileAddedOrRemoved x st eventName filepath =
     ((eventName = ''add'' \<or> eventName = ''unlink'')
      \<and> startsWith (normalizePath x filepath)
            (normalizePath x (appDirectory (remixConfig (p_ctx st)))))"

definition viteConfigChanged :: "ext \<Rightarrow> string \<Rightarrow> string \<Rightarrow> string \<Rightarrow> bool" where
  "viteConfigChanged x configFile eventName filepath =
     (eventName = ''change'' \<and> normalizePath x filepath = normalizePath x configFile)"

definition watcher_on_all ::
  "ext \<Rightarrow> error + RemixPluginContext \<Rightarrow> string \<Rightarrow> string \<Rightarrow> plugin_state
     \<Rightarrow> error option \<times> plugin_state" where
  "watcher_on_all x updateRemixPluginContext eventName filepath st =
     (case p_configFile st of
        None \<Rightarrow> (Some (invariant_error x), st)
      | Some configFile \<Rightarrow>
         if configFile = [] then (Some (invariant_error x), st)
         else if appFileAddedOrRemoved x st eventName filepath
                 \<or> viteConfigChanged x configFile eventName filepath
         then
           (let lastRemixConfig = remixConfig (p_ctx st)
            in case updateRemixPluginContext of
                 Inl e \<Rightarrow> (Some e, st \<lparr> p_updates := Suc (p_updates st) \<rparr>)
               | Inr ctx' \<Rightarrow>
                  (let st' = st \<lparr> p_ctx := ctx', p_updates := Suc (p_updates st) \<rparr>
                   in if \<not> isEqualJson x lastRemixConfig (remixConfig (p_ctx st'))
                      then (None, st' \<lparr> p_server := invalidateVirtualModules x (p_server st') \<rparr>)
                      else (None, st')))
         else (None, st))"

subsection \<open>handleHotUpdate\<close>

definition resolveRelativeRouteFilePath ::
  "ext \<Rightarrow> ConfigRoute \<Rightarrow> ResolvedVitePluginConfig \<Rightarrow> string" where
  "resolveRelativeRouteFilePath x route cfg =
     normalizePath x (path_resolve x (appDirectory cfg) (r_file route))"

definition getRouteMetadata ::
  "ext \<Rightarrow> RemixPluginContext \<Rightarrow> child_compiler option \<Rightarrow> ConfigRoute \<Rightarrow> (error + string) option
     \<Rightarrow> error + ManifestRoute" where
  "getRouteMetadata x ctx viteChildCompiler route readRouteFile =
     (case getRouteModuleExports x viteChildCompiler ctx (r_file route) readRouteFile of
        Inl e \<Rightarrow> Inl e
      | Inr sourceExports \<Rightarrow>
          Inr \<lparr> m_id = r_id route,
                m_parentId = r_parentId route,
                m_path = r_path route,
                m_index = r_index route,
                m_caseSensitive = r_caseSensitive route,
                m_url = Some (''/'' @ path_relative x (rootDirectory ctx)
                                      (resolveRelativeRouteFilePath x route (remixConfig ctx))),
                m_module = resolveFileUrl x ctx
                             (resolveRelativeRouteFilePath x route (remixConfig ctx)) @ ''?import'',
                m_hasAction = (''action'' \<in> set sourceExports),
                m_hasLoader = (''loader'' \<in> set sourceExports),
                m_hasClientAction = (''clientAction'' \<in> set sourceExports),
                m_hasClientLoader = (''clientLoader'' \<in> set sourceExports),
                m_hasErrorBoundary = (''ErrorBoundary'' \<in> set sourceExports),
                m_imports = [],
                m_css = None \<rparr>)"

text \<open>
  Whether the route's entry in the server manifest is missing or differs from the new
  metadata in one of the five flags. A member of \<^verbatim>\<open>Object.prototype\<close> found under the route id
  has none of the flags, and \<^verbatim>\<open>undefined\<close> differs from every boolean.
\<close>

definition route_exports_changed :: "ManifestRoute property option \<Rightarrow> ManifestRoute \<Rightarrow> bool" where
  "route_exports_changed oldRouteMetadata newRouteMetadata =
     (case oldRouteMetadata of
        None \<Rightarrow> True
      | Some Inherited \<Rightarrow> True
      | Some (Own old) \<Rightarrow>
          list_ex (\<lambda>key. key old \<noteq> key newRouteMetadata)
            [m_hasLoader, m_hasClientLoader, m_hasAction, m_hasClientAction, m_hasErrorBoundary])"

text \<open>
  The hook of the plugin \<^verbatim>\<open>remix-hmr-updates\<close>. \<open>serverManifest\<close> is the \<^verbatim>\<open>routes\<close> of the
  manifest that \<^verbatim>\<open>server.ssrLoadModule(serverManifestId)\<close> loads, or the error of the load;
  \<open>read\<close> is what the hook's \<^verbatim>\<open>read\<close> returns. The hook returns its \<^verbatim>\<open>modules\<close> unchanged.
\<close>

definition handleHotUpdate ::
  "ext \<Rightarrow> RemixPluginContext \<Rightarrow> child_compiler option \<Rightarrow> error + (string \<times> ManifestRoute) list
     \<Rightarrow> error + string \<Rightarrow> ViteDevServer \<Rightarrow> string \<Rightarrow> error option \<times> ViteDevServer" where
  "handleHotUpdate x ctx viteChildCompiler serverManifest read srv file =
     (case getRoute x (remixConfig ctx) file of
        None \<Rightarrow> (None, ws_send srv (Custom ''remix:hmr'' None))
      | Some route \<Rightarrow>
         (case serverManifest of
            Inl e \<Rightarrow> (Some e, srv)
          | Inr manifest_routes \<Rightarrow>
             (let oldRouteMetadata = js_get manifest_routes (r_id route)
              in case getRouteMetadata x ctx viteChildCompiler route (Some read) of
                   Inl e \<Rightarrow> (Some e, srv)
                 | Inr newRouteMetadata \<Rightarrow>
                     (None,
                      ws_send
                        (if route_exports_changed oldRouteMetadata newRouteMetadata
                         then invalidateVirtualModules x srv else srv)
                        (Custom ''remix:hmr'' (Some newRouteMetadata))))))"

subsection \<open>JSON.stringify\<close>

text \<open>
  The values the plugin serialises for the manifest: strings, booleans, arrays and
  objects, whose properties are listed in the order of their creation. A property whose
  value is \<^verbatim>\<open>undefined\<close> is left out by \<^verbatim>\<open>JSON.stringify\<close>: \<open>js_prop\<close> gives no property
  then. A \<open>char\<close> is a UTF-16 code unit below 256.
\<close>

datatype json = JString string | JBool bool | JArray "json list" | JObject "(string \<times> json) list"

definition js_prop :: "string \<Rightarrow> json option \<Rightarrow> (string \<times> json) list" where
  "js_prop key v = (case v of None \<Rightarrow> [] | Some j \<Rightarrow> [(key, j)])"

definition hex_digit :: "nat \<Rightarrow> char" where
  "hex_digit n = ''0123456789abcdef'' ! n"

definition json_escape :: "char \<Rightarrow> string" where
  "json_escape c =
     (if c = CHR 0x22 then [CHR 0x5C, CHR 0x22]
      else if c = CHR 0x5C then [CHR 0x5C, CHR 0x5C]
      else if c = CHR 0x08 then [CHR 0x5C, CHR ''b'']
      else if c = CHR 0x0C then [CHR 0x5C, CHR ''f'']
      else if c = CHR 0x0A then [CHR 0x5C, CHR ''n'']
      else if c = CHR 0x0D then [CHR 0x5C, CHR ''r'']
      else if c = CHR 0x09 then [CHR 0x5C, CHR ''t'']
      else if (of_char c :: nat) < 32
        then [CHR 0x5C, CHR ''u'', CHR ''0'', CHR ''0'',
              hex_digit (of_char c div 16), hex_digit (of_char c mod 16)]
      else [c])"

definition json_quote :: "string \<Rightarrow> string" where
  "json_quote s = dquote @ concat (map json_escape s) @ dquote"

fun JSON_stringify :: "json \<Rightarrow> string" where
  "JSON_stringify (JString s) = json_quote s"
| "JSON_stringify (JBool b) = (if b then ''true'' else ''false'')"
| "JSON_stringify (JArray xs) = ''['' @ join '','' (map JSON_stringify xs) @ '']''"
| "JSON_stringify (JObject ps) =
     ''{'' @ join '','' (map (\<lambda>p. json_quote (fst p) @ '':'' @ JSON_stringify (snd p)) ps) @ ''}''"

subsection \<open>getHash\<close>

text \<open>\<^verbatim>\<open>hash.slice(0, maxLength)\<close> for a length that is a natural number.\<close>

definition getHash :: "ext \<Rightarrow> string \<Rightarrow> nat option \<Rightarrow> string" where
  "getHash x source maxLength =
     (let hash = sha256_hex x source
      in case maxLength of Some n \<Rightarrow> take n hash | None \<Rightarrow> hash)"

subsection \<open>createBrowserManifestForBuild\<close>

record BrowserManifest =
  bm_entry :: AssetPaths
  bm_routes :: "(string \<times> ManifestRoute) list"
  bm_url :: string
  bm_version :: string

definition getClientBuildDirectory :: "ext \<Rightarrow> ResolvedVitePluginConfig \<Rightarrow> string" where
  "getClientBuildDirectory x cfg = path_join x (buildDirectory cfg) ''client''"

definition loadViteManifest :: "ext \<Rightarrow> string \<Rightarrow> error + Manifest" where
  "loadViteManifest x directory =
     (case fse_readFile x (path_resolve x (path_resolve x directory ''.vite'') ''manifest.json'') of
        Inl e \<Rightarrow> Inl e
      | Inr manifestContents \<Rightarrow> JSON_parse_manifest x manifestContents)"

text \<open>
  \<open>getRouteManifestModuleExports\<close> reads the exports of every route under one
  \<^verbatim>\<open>Promise.all\<close>; of several failures the model reports that of the first route.
\<close>

fun route_entries ::
  "ext \<Rightarrow> child_compiler option \<Rightarrow> RemixPluginContext \<Rightarrow> RouteManifest
     \<Rightarrow> error + (string \<times> string list) list" where
  "route_entries x viteChildCompiler ctx [] = Inr []"
| "route_entries x viteChildCompiler ctx ((key, route) # rest) =
     (case getRouteModuleExports x viteChildCompiler ctx (r_file route) None of
        Inl e \<Rightarrow> Inl e
      | Inr sourceExports \<Rightarrow>
         (case route_entries x viteChildCompiler ctx rest of
            Inl e \<Rightarrow> Inl e
          | Inr entries \<Rightarrow> Inr ((key, sourceExports) # entries)))"

definition getRouteManifestModuleExports ::
  "ext \<Rightarrow> child_compiler option \<Rightarrow> RemixPluginContext \<Rightarrow> error + (string \<times> string list) list" where
  "getRouteManifestModuleExports x viteChildCompiler ctx =
     route_entries x viteChildCompiler ctx (routes (remixConfig ctx))"

text \<open>
  The loop over \<^verbatim>\<open>Object.entries(ctx.remixConfig.routes)\<close>, which fills \<^verbatim>\<open>routes\<close>. The route
  ids are taken not to be array indices, which an object would list first. Calling
  \<^verbatim>\<open>includes\<close> of \<^verbatim>\<open>undefined\<close>, or of a member of \<^verbatim>\<open>Object.prototype\<close>, throws a \<^verbatim>\<open>TypeError\<close>.
\<close>

fun build_routes ::
  "ext \<Rightarrow> nat \<Rightarrow> RemixPluginContext \<Rightarrow> Manifest \<Rightarrow> (string \<times> string list) list \<Rightarrow> RouteManifest
     \<Rightarrow> error + (string \<times> ManifestRoute) list" where
  "build_routes x stack ctx viteManifest routeManifestExports [] = Inr []"
| "build_routes x stack ctx viteManifest routeManifestExports ((key, route) # rest) =
     (let routeFilePath = path_join x (appDirectory (remixConfig ctx)) (r_file route);
          isRootRoute = (r_parentId route = None)
      in case js_get routeManifestExports key of
           None \<Rightarrow> Inl TypeError
         | Some Inherited \<Rightarrow> Inl TypeError
         | Some (Own sourceExports) \<Rightarrow>
            (case resolveBuildAssetPaths x stack ctx viteManifest routeFilePath
                    (if isRootRoute then [entryClientFilePath ctx] else []) of
               Inl e \<Rightarrow> Inl e
             | Inr assets \<Rightarrow>
                (case build_routes x stack ctx viteManifest routeManifestExports rest of
                   Inl e \<Rightarrow> Inl e
                 | Inr routes' \<Rightarrow>
                     Inr ((key,
                           \<lparr> m_id = r_id route,
                             m_parentId = r_parentId route,
                             m_path = r_path route,
                             m_index = r_index route,
                             m_caseSensitive = r_caseSensitive route,
                             m_url = None,
                             m_module = a_module assets,
                             m_hasAction = (''action'' \<in> set sourceExports),
                             m_hasLoader = (''loader'' \<in> set sourceExports),
                             m_hasClientAction = (''clientAction'' \<in> set sourceExports),
                             m_hasClientLoader = (''clientLoader'' \<in> set sourceExports),
                             m_hasErrorBoundary = (''ErrorBoundary'' \<in> set sourceExports),
                             m_imports = a_imports assets,
                             m_css = Some (a_css assets) \<rparr>) # routes'))))"

text \<open>
  The objects as \<^verbatim>\<open>JSON.stringify\<close> sees them, their properties in the order in which the
  object literals of the source create them.
\<close>

definition assets_json :: "AssetPaths \<Rightarrow> json" where
  "assets_json a =
     JObject [(''module'', JString (a_module a)),
              (''imports'', JArray (map JString (a_imports a))),
              (''css'', JArray (map JString (a_css a)))]"

definition route_json :: "ManifestRoute \<Rightarrow> json" where
  "route_json r =
     JObject ([(''id'', JString (m_id r))]
              @ js_prop ''parentId'' (map_option JString (m_parentId r))
              @ js_prop ''path'' (map_option JString (m_path r))
              @ js_prop ''index'' (map_option JBool (m_index r))
              @ js_prop ''caseSensitive'' (map_option JBool (m_caseSensitive r))
              @ [(''hasAction'', JBool (m_hasAction r)),
                 (''hasLoader'', JBool (m_hasLoader r)),
                 (''hasClientAction'', JBool (m_hasClientAction r)),
                 (''hasClientLoader'', JBool (m_hasClientLoader r)),
                 (''hasErrorBoundary'', JBool (m_hasErrorBoundary r)),
                 (''module'', JString (m_module r)),
                 (''imports'', JArray (map JString (m_imports r)))]
              @ js_prop ''css'' (map_option (\<lambda>css. JArray (map JString css)) (m_css r)))"

definition fingerprintedValues_json :: "AssetPaths \<Rightarrow> (string \<times> ManifestRoute) list \<Rightarrow> json" where
  "fingerprintedValues_json entry routes' =
     JObject [(''entry'', assets_json entry),
              (''routes'', JObject (map (\<lambda>p. (fst p, route_json (snd p))) routes'))]"

definition manifest_json :: "BrowserManifest \<Rightarrow> json" where
  "manifest_json m =
     JObject [(''entry'', assets_json (bm_entry m)),
              (''routes'', JObject (map (\<lambda>p. (fst p, route_json (snd p))) (bm_routes m))),
              (''url'', JString (bm_url m)),
              (''version'', JString (bm_version m))]"

text \<open>
  The result is the manifest together with the file written: its path and its contents.
\<close>

definition createBrowserManifestForBuild ::
  "ext \<Rightarrow> nat \<Rightarrow> child_compiler option \<Rightarrow> RemixPluginContext
     \<Rightarrow> error + BrowserManifest \<times> (string \<times> string)" where
  "createBrowserManifestForBuild x stack viteChildCompiler ctx =
     (case loadViteManifest x (getClientBuildDirectory x (remixConfig ctx)) of
        Inl e \<Rightarrow> Inl e
      | Inr viteManifest \<Rightarrow>
     (case resolveBuildAssetPaths x stack ctx viteManifest (entryClientFilePath ctx) [] of
        Inl e \<Rightarrow> Inl e
      | Inr entry \<Rightarrow>
     (case getRouteManifestModuleExports x viteChildCompiler ctx of
        Inl e \<Rightarrow> Inl e
      | Inr routeManifestExports \<Rightarrow>
     (case build_routes x stack ctx viteManifest routeManifestExports (routes (remixConfig ctx)) of
        Inl e \<Rightarrow> Inl e
      | Inr routes' \<Rightarrow>
         (let version = getHash x (JSON_stringify (fingerprintedValues_json entry routes')) (Some 8);
              manifestPath = ''assets/manifest-'' @ version @ ''.js'';
              url = publicPath (remixConfig ctx) @ manifestPath;
              manifest' = \<lparr> bm_entry = entry, bm_routes = routes', bm_url = url,
                             bm_version = version \<rparr>;
              file = path_join x (getClientBuildDirectory x (remixConfig ctx)) manifestPath
          in case writeFileSafe_error x file of
               Some e \<Rightarrow> Inl e
             | None \<Rightarrow>
                 Inr (manifest',
                      (file, ''window.__remixManifest='' @ JSON_stringify (manifest_json manifest')
                             @ '';'')))))))"

subsection \<open>SHA-256\<close>

text \<open>
  What \<^verbatim>\<open>createHash("sha256").update(source).digest("hex")\<close> computes of a string: the
  SHA-256 digest (FIPS 180-4) of its UTF-8 encoding, in hexadecimal. Words of 32 bits are
  natural numbers below \<open>2 ^ 32\<close>, and the addition wraps around. The round constants and
  the initial hash value are written in decimal.
\<close>

definition add32 :: "nat \<Rightarrow> nat \<Rightarrow> nat" where
  "add32 a b = (a + b) mod 4294967296"

definition rotr :: "nat \<Rightarrow> nat \<Rightarrow> nat" where
  "rotr n w = w div 2 ^ n + (w mod 2 ^ n) * 2 ^ (32 - n)"

definition shr :: "nat \<Rightarrow> nat \<Rightarrow> nat" where
  "shr n w = w div 2 ^ n"

definition Ch :: "nat \<Rightarrow> nat \<Rightarrow> nat \<Rightarrow> nat" where
  "Ch a b c = (a AND b) XOR ((4294967295 - a) AND c)"

definition Maj :: "nat \<Rightarrow> nat \<Rightarrow> nat \<Rightarrow> nat" where
  "Maj a b c = (a AND b) XOR (a AND c) XOR (b AND c)"

definition Sigma0 :: "nat \<Rightarrow> nat" where
  "Sigma0 w = rotr 2 w XOR rotr 13 w XOR rotr 22 w"

definition Sigma1 :: "nat \<Rightarrow> nat" where
  "Sigma1 w = rotr 6 w XOR rotr 11 w XOR rotr 25 w"

definition sigma0 :: "nat \<Rightarrow> nat" where
  "sigma0 w = rotr 7 w XOR rotr 18 w XOR shr 3 w"

definition sigma1 :: "nat \<Rightarrow> nat" where
  "sigma1 w = rotr 17 w XOR rotr 19 w XOR shr 10 w"

definition K256 :: "nat list" where
  "K256 =
     [1116352408, 1899447441, 3049323471, 3921009573, 961987163, 1508970993,
      2453635748, 2870763221, 3624381080, 310598401, 607225278, 1426881987,
      1925078388, 2162078206, 2614888103, 3248222580, 3835390401, 4022224774,
      264347078, 604807628, 770255983, 1249150122, 1555081692, 1996064986,
      2554220882, 2821834349, 2952996808, 3210313671, 3336571891, 3584528711,
      113926993, 338241895, 666307205, 773529912, 1294757372, 1396182291,
      1695183700, 1986661051, 2177026350, 2456956037, 2730485921, 2820302411,
      3259730800, 3345764771, 3516065817, 3600352804, 4094571909, 275423344,
      430227734, 506948616, 659060556, 883997877, 958139571, 1322822218,
      1537002063, 1747873779, 1955562222, 2024104815, 2227730452, 2361852424,
      2428436474, 2756734187, 3204031479, 3329325298]"

definition H256 :: "nat list" where
  "H256 =
     [1779033703, 3144134277, 1013904242, 2773480762, 1359893119, 2600822924,
      528734635, 1541459225]"

text \<open>
  The message schedule, newest word first: the next word is computed from the words 2, 7,
  15 and 16 places back, and \<open>schedule\<close> adds one word for every element of its first
  argument.
\<close>

fun next_w :: "nat list \<Rightarrow> nat" where
  "next_w (w1 # w2 # w3 # w4 # w5 # w6 # w7 # w8 # w9 # w10 # w11 # w12 # w13 # w14 # w15 # w16 # ws) =
     add32 (add32 (add32 (sigma1 w2) w7) (sigma0 w15)) w16"
| "next_w ws = 0"

fun schedule :: "'a list \<Rightarrow> nat list \<Rightarrow> nat list" where
  "schedule [] ws = ws"
| "schedule (k # ks) ws = schedule ks (next_w ws # ws)"

text \<open>One round on the working variables \<open>a\<close> to \<open>h\<close>, with its constant and its word.\<close>

fun round_result :: "nat \<Rightarrow> nat \<Rightarrow> nat list \<Rightarrow> nat list" where
  "round_result t1 t2 [a, b, c, d, e, f, g, h] = [add32 t1 t2, a, b, c, add32 d t1, e, f, g]"
| "round_result t1 t2 vs = vs"

fun sha_round :: "nat list \<Rightarrow> nat \<times> nat \<Rightarrow> nat list" where
  "sha_round [a, b, c, d, e, f, g, h] (k, w) =
     round_result (add32 (add32 (add32 (add32 h (Sigma1 e)) (Ch e f g)) k) w)
       (add32 (Sigma0 a) (Maj a b c)) [a, b, c, d, e, f, g, h]"
| "sha_round vs kw = vs"

definition compress :: "nat list \<Rightarrow> nat list \<Rightarrow> nat list" where
  "compress hs block =
     map2 add32 hs (foldl sha_round hs (zip K256 (rev (schedule (drop 16 K256) (rev block)))))"

text \<open>Padding, and the blocks of sixteen big-endian words.\<close>

definition pad :: "nat list \<Rightarrow> nat list" where
  "pad bytes =
     bytes @ [128] @ replicate ((119 - length bytes mod 64) mod 64) 0
     @ map (\<lambda>i. (8 * length bytes) div 256 ^ i mod 256) [7, 6, 5, 4, 3, 2, 1, 0]"

fun be32 :: "nat list \<Rightarrow> nat list" where
  "be32 (a # b # c # d # bytes) = (((a * 256 + b) * 256 + c) * 256 + d) # be32 bytes"
| "be32 bytes = []"

fun blocks :: "nat list \<Rightarrow> nat list list" where
  "blocks (w1 # w2 # w3 # w4 # w5 # w6 # w7 # w8 # w9 # w10 # w11 # w12 # w13 # w14 # w15 # w16 # ws) =
     [w1, w2, w3, w4, w5, w6, w7, w8, w9, w10, w11, w12, w13, w14, w15, w16] # blocks ws"
| "blocks ws = []"

definition sha256 :: "nat list \<Rightarrow> nat list" where
  "sha256 bytes = foldl compress H256 (blocks (be32 (pad bytes)))"

definition utf8 :: "string \<Rightarrow> nat list" where
  "utf8 s =
     concat (map (\<lambda>c. if (of_char c :: nat) < 128 then [of_char c]
                         else [192 + of_char c div 64, 128 + of_char c mod 64]) s)"

definition hex32 :: "nat \<Rightarrow> string" where
  "hex32 w = map (\<lambda>i. hex_digit (w div 16 ^ i mod 16)) [7, 6, 5, 4, 3, 2, 1, 0]"

definition node_sha256_hex :: "string \<Rightarrow> string" where
  "node_sha256_hex source = concat (map hex32 (sha256 (utf8 source)))"

subsection \<open>The invariant of the chunk set\<close>

text \<open>No object twice, and only objects that a read of the manifest gives.\<close>

definition chunks_ok :: "Manifest \<Rightarrow> chunk_obj list \<Rightarrow> bool" where
  "chunks_ok viteManifest chunks \<longleftrightarrow>
     distinct (map fst chunks)
     \<and> list_all (\<lambda>chunk. manifest_get viteManifest (fst chunk) = Some chunk) chunks"

subsection \<open>Example inputs\<close>

text \<open>
  A project at \<^verbatim>\<open>/proj\<close> with the app directory \<^verbatim>\<open>/proj/app\<close>. On the paths of the
  examples, which are normalised POSIX paths below the first argument, the externals
  compute what Node and Vite compute.
\<close>

text \<open>
  Route modules, given by their export statements, and the export names the lexer reports
  for them. Of a declaration with several names the lexer reads on up to the first
  initialiser, so it reports \<^verbatim>\<open>meta\<close> and not \<^verbatim>\<open>loader\<close> for \<open>declarator_module\<close>.
  \<open>broken_module\<close> is a module saved before its last brace was typed.
\<close>

definition fallback_module :: string where
  "fallback_module = ''export function HydrateFallback() {} export default function Page() {}''"

definition loader_module :: string where
  "loader_module = ''export function loader() {} export default function Page() {}''"

definition client_module :: string where
  "client_module =
     ''export function clientLoader() {} export function meta() {} export default function Page() {}''"

definition declarator_module :: string where
  "declarator_module =
     ''export const meta = () => [], loader = () => null; export default function Page() {}''"

definition broken_module :: string where
  "broken_module = ''export default function Page() {''"

definition example_exports :: "string \<Rightarrow> error + string list" where
  "example_exports code =
     (if code = fallback_module then Inr [''HydrateFallback'', ''default'']
      else if code = loader_module then Inr [''loader'', ''default'']
      else if code = client_module then Inr [''clientLoader'', ''meta'', ''default'']
      else if code = declarator_module then Inr [''meta'', ''default'']
      else Inl (Error ''Parse error''))"

text \<open>
  \<^verbatim>\<open>removeExports\<close> parses a module, takes the exports of the given names out and prints the
  module again, one statement to a line; it throws on a module it cannot parse. Of the
  names in the example modules, the plugin asks it to remove \<^verbatim>\<open>loader\<close> only.
\<close>

definition example_removeExports :: "string \<Rightarrow> string list \<Rightarrow> error + string" where
  "example_removeExports code names =
     (if code = fallback_module then
        Inr (join newline [''export function HydrateFallback() {}'',
                           ''export default function Page() {}''])
      else if code = client_module then
        Inr (join newline [''export function clientLoader() {}'', ''export function meta() {}'',
                           ''export default function Page() {}''])
      else if code = loader_module then
        Inr (join newline ((if ''loader'' \<in> set names then [] else [''export function loader() {}''])
                           @ [''export default function Page() {}'']))
      else if code = declarator_module then
        Inr (join newline
               [''export const meta = () => []''
                  @ (if ''loader'' \<in> set names then [] else '', loader = () => null'') @ '';'',
                ''export default function Page() {}''])
      else Inl (Error ''Unexpected token''))"

text \<open>
  Route files on disk, by their paths, and a child compiler that resolves every URL to
  itself and leaves the code as it is.
\<close>

definition example_files :: "string \<Rightarrow> error + string" where
  "example_files file =
     (if file = ''/proj/app/root.tsx'' then Inr fallback_module
      else if file = ''/proj/app/routes/about.tsx'' then Inr client_module
      else if file = ''/proj/app/routes/data.tsx'' then Inr loader_module
      else Inl (Error ''ENOENT''))"

definition example_compiler :: child_compiler where
  "example_compiler = \<lparr> cc_resolveId = (\<lambda>url. Some url), cc_transform = (\<lambda>code i. Inr code) \<rparr>"

text \<open>
  The serialisation of a config in the examples: the fields that differ between them.
\<close>

definition example_stringify :: "ResolvedVitePluginConfig \<Rightarrow> string" where
  "example_stringify cfg =
     ''{'' @ join '','' [appDirectory cfg, publicPath cfg,
                          join '';'' (map (\<lambda>(k, r). k @ '':'' @ r_file r) (routes cfg)),
                          (if unstable_ssr cfg then ''true'' else ''false'')] @ ''}''"

definition example_ext :: ext where
  "example_ext = \<lparr>
     normalizePath = (\<lambda>p. p),
     path_relative = (\<lambda>from to. drop (length from + 1) to),
     path_join = (\<lambda>a b. a @ ''/'' @ b),
     path_resolve = (\<lambda>a b. if prefix ''/'' b then b else a @ ''/'' @ b),
     path_basename = (\<lambda>p. rev (takeWhile (\<lambda>c. c \<noteq> CHR ''/'') (rev p))),
     esModuleLexer_exports = example_exports,
     removeExports = example_removeExports,
     isCssModulesFile = (\<lambda>file. False),
     resolveFileUrl = (\<lambda>ctx file. ''/'' @ drop (length (rootDirectory ctx) + 1) file),
     vmod_id = (\<lambda>name. ''virtual:remix/'' @ name),
     vmod_resolve = (\<lambda>i. CHR 0x00 # i),
     vmod_url = (\<lambda>i. ''/@id/__x00__'' @ i),
     invariant_error = Error ''Invariant failed'',
     fse_readFile = example_files,
     colors_red = (\<lambda>s. s),
     sha256_hex = node_sha256_hex,
     JSON_stringify_config = example_stringify,
     JSON_parse_manifest = (\<lambda>contents. Inl (Error ''Unexpected end of JSON input'')),
     writeFileSafe_error = (\<lambda>file. None) \<rparr>"

definition example_ctx :: RemixPluginContext where
  "example_ctx = \<lparr>
     rootDirectory = ''/proj'',
     entryClientFilePath = ''/proj/app/entry.client.tsx'',
     entryServerFilePath = ''/proj/app/entry.server.tsx'',
     remixConfig = \<lparr>
       adapter = None,
       appDirectory = ''/proj/app'',
       buildDirectory = ''/proj/build'',
       future = [],
       manifest = False,
       publicPath = ''/'',
       routes = [(''root'', \<lparr> r_path = Some [], r_index = None, r_caseSensitive = None,
                    r_id = ''root'', r_parentId = None, r_file = ''root.tsx'' \<rparr>),
                 (''routes/about'', \<lparr> r_path = Some ''about'', r_index = None,
                    r_caseSensitive = None, r_id = ''routes/about'', r_parentId = Some ''root'',
                    r_file = ''routes/about.tsx'' \<rparr>)],
       serverBuildFile = ''index.js'',
       serverBundles = None,
       serverModuleFormat = ''esm'',
       unstable_ssr = True \<rparr>,
     isSsrBuild = True,
     serverBundleId = None \<rparr>"

text \<open>The same project in SPA mode.\<close>

definition spa_ctx :: RemixPluginContext where
  "spa_ctx = example_ctx \<lparr> remixConfig := (remixConfig example_ctx) \<lparr> unstable_ssr := False \<rparr> \<rparr>"

definition example_manifest :: Manifest where
  "example_manifest =
     [(''app/root.tsx?client-route'',
         \<lparr> c_file = ''assets/root-a1.js'', c_imports = Some [''_shared-b2.js''],
           c_css = Some [''assets/root-c3.css''] \<rparr>),
      (''app/entry.client.tsx'',
         \<lparr> c_file = ''assets/entry.client-d4.js'', c_imports = Some [''_shared-b2.js''],
           c_css = None \<rparr>),
      (''_shared-b2.js'',
         \<lparr> c_file = ''assets/shared-b2.js'', c_imports = None, c_css = None \<rparr>)]"

text \<open>Two chunks that import each other.\<close>

definition cyclicManifest :: Manifest where
  "cyclicManifest =
     [(''A'', \<lparr> c_file = ''a.js'', c_imports = Some [''B''], c_css = None \<rparr>),
      (''B'', \<lparr> c_file = ''b.js'', c_imports = Some [''A''], c_css = None \<rparr>)]"

text \<open>Two manifest keys whose chunks name the same output file.\<close>

definition sharedFileManifest :: Manifest where
  "sharedFileManifest =
     [(''app/root.tsx?client-route'',
         \<lparr> c_file = ''assets/root-a1.js'', c_imports = Some [''_a.js'', ''_b.js''],
           c_css = None \<rparr>),
      (''_a.js'', \<lparr> c_file = ''assets/shared.js'', c_imports = None, c_css = None \<rparr>),
      (''_b.js'', \<lparr> c_file = ''assets/shared.js'', c_imports = None, c_css = None \<rparr>)]"

text \<open>
  A dev server that has loaded two of the virtual modules, the state of the plugin in that
  server, the context after a route file \<^verbatim>\<open>routes/new.tsx\<close> has been added, and the metadata
  of the route \<^verbatim>\<open>routes/about\<close> while its module is \<open>client_module\<close>.
\<close>

definition example_server :: ViteDevServer where
  "example_server = \<lparr>
     moduleGraph = [CHR 0x00 # ''virtual:remix/server-build'',
                    CHR 0x00 # ''virtual:remix/server-manifest'',
                    ''/proj/app/root.tsx''],
     invalidated = [],
     ws_sent = [] \<rparr>"

definition example_state :: plugin_state where
  "example_state = \<lparr>
     p_ctx = example_ctx,
     p_configFile = Some ''/proj/vite.config.ts'',
     p_server = example_server,
     p_updates = 0 \<rparr>"

definition new_route_ctx :: RemixPluginContext where
  "new_route_ctx = example_ctx \<lparr> remixConfig := (remixConfig example_ctx) \<lparr> routes :=
     routes (remixConfig example_ctx)
     @ [(''routes/new'', \<lparr> r_path = Some ''new'', r_index = None, r_caseSensitive = None,
           r_id = ''routes/new'', r_parentId = Some ''root'', r_file = ''routes/new.tsx'' \<rparr>)] \<rparr> \<rparr>"

definition about_metadata :: ManifestRoute where
  "about_metadata = \<lparr>
     m_id = ''routes/about'', m_parentId = Some ''root'', m_path = Some ''about'',
     m_index = None, m_caseSensitive = None,
     m_url = Some ''/app/routes/about.tsx'',
     m_module = ''/app/routes/about.tsx?import'',
     m_hasAction = False, m_hasLoader = False, m_hasClientAction = False,
     m_hasClientLoader = True, m_hasErrorBoundary = False,
     m_imports = [], m_css = None \<rparr>"

text \<open>
  A project with the root route only, the Vite manifest of its client build with a given
  style sheet for the root route, externals whose disk holds that manifest, and the
  \<^verbatim>\<open>entry\<close> and \<^verbatim>\<open>routes\<close> that the manifest synthesis resolves from it. In \<open>other_entry_ctx\<close>
  the server entry is another file.
\<close>

definition single_route_ctx :: RemixPluginContext where
  "single_route_ctx = example_ctx \<lparr> remixConfig := (remixConfig example_ctx) \<lparr> routes :=
     [(''root'', \<lparr> r_path = Some [], r_index = None, r_caseSensitive = None,
         r_id = ''root'', r_parentId = None, r_file = ''root.tsx'' \<rparr>)] \<rparr> \<rparr>"

definition styled_manifest :: "string \<Rightarrow> Manifest" where
  "styled_manifest css =
     [(''app/root.tsx?client-route'',
         \<lparr> c_file = ''assets/root-a1.js'', c_imports = Some [''_shared-b2.js''],
           c_css = Some [css] \<rparr>),
      (''app/entry.client.tsx'',
         \<lparr> c_file = ''assets/entry.client-d4.js'', c_imports = Some [''_shared-b2.js''],
           c_css = None \<rparr>),
      (''_shared-b2.js'',
         \<lparr> c_file = ''assets/shared-b2.js'', c_imports = None, c_css = None \<rparr>)]"

definition disk_ext :: "Manifest \<Rightarrow> ext" where
  "disk_ext viteManifest = example_ext \<lparr>
     fse_readFile := (\<lambda>file. if file = ''/proj/build/client/.vite/manifest.json''
                              then Inr ''manifest.json'' else example_files file),
     JSON_parse_manifest := (\<lambda>contents. Inr viteManifest) \<rparr>"

definition built_entry :: AssetPaths where
  "built_entry = \<lparr> a_module = ''/assets/entry.client-d4.js?client-route'',
        a_imports = [''/assets/shared-b2.js''], a_css = [] \<rparr>"

definition built_routes :: "string \<Rightarrow> (string \<times> ManifestRoute) list" where
  "built_routes css = [(''root'',
         \<lparr> m_id = ''root'', m_parentId = None, m_path = Some [], m_index = None,
           m_caseSensitive = None, m_url = None,
           m_module = ''/assets/root-a1.js?client-route'',
           m_hasAction = False, m_hasLoader = False, m_hasClientAction = False,
           m_hasClientLoader = False, m_hasErrorBoundary = False,
           m_imports = [''/assets/shared-b2.js''],
           m_css = Some [css] \<rparr>)]"

definition other_entry_ctx :: RemixPluginContext where
  "other_entry_ctx = single_route_ctx \<lparr> entryServerFilePath := ''/proj/app/entry.server.node.tsx'' \<rparr>"

section \<open>Properties\<close>

subsection \<open>Sets in insertion order, and dedupe\<close>

lemma set_add_distinct: "distinct s \<Longrightarrow> distinct (set_add s x)"
  by (simp add: set_add_def)

lemma set_set_add: "set (set_add s x) = insert x (set s)"
  by (auto simp: set_add_def)

lemma foldl_set_add_distinct: "distinct s \<Longrightarrow> distinct (foldl set_add s xs)"
  by (induction xs arbitrary: s) (simp_all add: set_add_distinct)

lemma foldl_set_add_set: "set (foldl set_add s xs) = set s \<union> set xs"
  by (induction xs arbitrary: s) (simp_all add: set_set_add)

lemma foldl_set_add_absorb: "set xs \<subseteq> set s \<Longrightarrow> foldl set_add s xs = s"
  by (induction xs arbitrary: s) (simp_all add: set_add_def)

lemma set_add_append: "x \<notin> set s \<Longrightarrow> set_add (s @ t) x = s @ set_add t x"
  by (simp add: set_add_def)

lemma foldl_set_add_append:
  "foldl set_add (s @ t) xs = s @ foldl set_add t (filter (\<lambda>x. x \<notin> set s) xs)"
proof (induction xs arbitrary: t)
  case Nil
  show ?case by simp
next
  case (Cons x xs)
  show ?case
  proof (cases "x \<in> set s")
    case True
    then have "set_add (s @ t) x = s @ t" by (simp add: set_add_def)
    with True Cons.IH [of t] show ?thesis by simp
  next
    case False
    then show ?thesis using Cons.IH [of "set_add t x"] by (simp add: set_add_append)
  qed
qed

lemma foldl_set_add_first:
  "foldl set_add s xs = s @ foldl set_add [] (filter (\<lambda>x. x \<notin> set s) xs)"
  using foldl_set_add_append [of s "[]" xs] by simp

lemma dedupe_distinct: "distinct (dedupe xs)"
  by (simp add: dedupe_def new_Set_def foldl_set_add_distinct)

lemma dedupe_set: "set (dedupe xs) = set xs"
  by (simp add: dedupe_def new_Set_def foldl_set_add_set)

lemma dedupe_Nil: "dedupe [] = []"
  by (simp add: dedupe_def new_Set_def)

lemma dedupe_Cons: "dedupe (x # xs) = x # dedupe (filter (\<lambda>y. y \<noteq> x) xs)"
proof -
  have "foldl set_add [x] xs = [x] @ foldl set_add [] (filter (\<lambda>y. y \<notin> set [x]) xs)"
    by (rule foldl_set_add_first)
  then show ?thesis by (simp add: dedupe_def new_Set_def set_add_def)
qed

lemma dedupe_id: "distinct xs \<Longrightarrow> dedupe xs = xs"
proof (induction xs)
  case Nil
  show ?case by (simp add: dedupe_Nil)
next
  case (Cons x xs)
  then have "filter (\<lambda>y. y \<noteq> x) xs = xs" by (auto intro: filter_True)
  with Cons show ?case by (simp add: dedupe_Cons)
qed

lemma dedupe_idem: "dedupe (dedupe xs) = dedupe xs"
  by (rule dedupe_id) (rule dedupe_distinct)

lemmas eval_defs =
  resolveBuildAssetPaths_def resolveChunk_def resolveDependantChunks_def rootRelative_def
  manifest_get_def js_get_def file_of_def interpolate_def import_url_def
  chunks_has_def chunks_add_def imports_of_def css_of_def
  CLIENT_ROUTE_QUERY_STRING_def example_ext_def example_ctx_def
  dedupe_def new_Set_def set_add_def

subsection \<open>resolveChunk\<close>

lemma sublist_behind: "sublist x ys \<Longrightarrow> sublist x (ps @ ys)"
proof -
  assume "sublist x ys"
  then obtain a b where "ys = a @ x @ b" by (auto simp: sublist_def)
  then have "ps @ ys = (ps @ a) @ x @ b" by simp
  then show ?thesis unfolding sublist_def by blast
qed

lemma sublist_join: "x \<in> set xs \<Longrightarrow> sublist x (join sep xs)"
proof (induction sep xs rule: join.induct)
  case (1 sep)
  then show ?case by simp
next
  case (2 sep y)
  then show ?case by simp
next
  case (3 sep y z zs)
  show ?case
  proof (cases "x = y")
    case True
    then show ?thesis by (simp add: sublist_append_rightI)
  next
    case False
    with 3 have "sublist x (join sep (z # zs))" by simp
    then have "sublist x ((y @ sep) @ join sep (z # zs))" by (rule sublist_behind)
    then show ?thesis by simp
  qed
qed

lemma client_route_key_not_inherited:
  "rel @ CLIENT_ROUTE_QUERY_STRING \<notin> set Object_prototype_keys"
proof
  assume "rel @ CLIENT_ROUTE_QUERY_STRING \<in> set Object_prototype_keys"
  moreover have "suffix ''?client-route'' (rel @ CLIENT_ROUTE_QUERY_STRING)"
    unfolding CLIENT_ROUTE_QUERY_STRING_def by (rule suffixI) (rule refl)
  ultimately have "list_ex (suffix ''?client-route'') Object_prototype_keys"
    unfolding list_ex_iff by blast
  then show False
    by (simp add: Object_prototype_keys_def suffix_to_prefix)
qed

text \<open>
  What \<open>resolveChunk\<close> returns, by the keys of the manifest: the chunk under the key with
  the client-route query string, else the chunk under the bare key, else the member of
  \<^verbatim>\<open>Object.prototype\<close> that the bare key names, and only when there is none, the error
  whose message lists every manifest key in double quotes.
\<close>

lemma resolveChunk_lookup:
  assumes "rel = rootRelative x ctx absoluteFilePath"
  shows "(map_of viteManifest (rel @ CLIENT_ROUTE_QUERY_STRING) = Some c \<longrightarrow>
            resolveChunk x ctx viteManifest absoluteFilePath
              = Inr (rel @ CLIENT_ROUTE_QUERY_STRING, Own c))
       \<and> (map_of viteManifest (rel @ CLIENT_ROUTE_QUERY_STRING) = None \<and>
          map_of viteManifest rel = Some c \<longrightarrow>
            resolveChunk x ctx viteManifest absoluteFilePath = Inr (rel, Own c))
       \<and> (map_of viteManifest (rel @ CLIENT_ROUTE_QUERY_STRING) = None \<and>
          map_of viteManifest rel = None \<and> rel \<in> set Object_prototype_keys \<longrightarrow>
            resolveChunk x ctx viteManifest absoluteFilePath = Inr (rel, Inherited))
       \<and> (map_of viteManifest (rel @ CLIENT_ROUTE_QUERY_STRING) = None \<and>
          map_of viteManifest rel = None \<and> rel \<notin> set Object_prototype_keys \<longrightarrow>
            (\<exists>msg. resolveChunk x ctx viteManifest absoluteFilePath = Inl (Error msg)
               \<and> msg = ''No manifest entry found for '' @ dquote @ rel @ dquote
                        @ ''. Known manifest keys: ''
                        @ join '', '' (map (\<lambda>key. dquote @ key @ dquote) (map fst viteManifest))
               \<and> (\<forall>key \<in> set (map fst viteManifest). sublist (dquote @ key @ dquote) msg)))"
proof -
  have keys: "\<forall>key \<in> set (map fst viteManifest).
      sublist (dquote @ key @ dquote)
        (pre @ join '', '' (map (\<lambda>key. dquote @ key @ dquote) (map fst viteManifest)))" for pre
  proof
    fix key assume "key \<in> set (map fst viteManifest)"
    then have "dquote @ key @ dquote \<in> set (map (\<lambda>key. dquote @ key @ dquote) (map fst viteManifest))"
      by auto
    then have "sublist (dquote @ key @ dquote)
        (join '', '' (map (\<lambda>key. dquote @ key @ dquote) (map fst viteManifest)))"
      by (rule sublist_join)
    then show "sublist (dquote @ key @ dquote)
        (pre @ join '', '' (map (\<lambda>key. dquote @ key @ dquote) (map fst viteManifest)))"
      by (rule sublist_behind)
  qed
  show ?thesis
    using assms client_route_key_not_inherited [of rel]
      keys [of "''No manifest entry found for '' @ dquote @ rel @ dquote @ ''. Known manifest keys: ''"]
    by (simp add: resolveChunk_def manifest_get_def js_get_def knownManifestKeys_def Let_def)
qed

lemma resolveChunk_lookup_example:
  "resolveChunk example_ext example_ctx example_manifest ''/proj/app/root.tsx''
     = Inr (''app/root.tsx?client-route'',
            Own \<lparr> c_file = ''assets/root-a1.js'', c_imports = Some [''_shared-b2.js''],
                  c_css = Some [''assets/root-c3.css''] \<rparr>)
   \<and> resolveChunk example_ext example_ctx example_manifest ''/proj/app/entry.client.tsx''
     = Inr (''app/entry.client.tsx'',
            Own \<lparr> c_file = ''assets/entry.client-d4.js'', c_imports = Some [''_shared-b2.js''],
                  c_css = None \<rparr>)
   \<and> resolveChunk example_ext example_ctx example_manifest ''/proj/app/gone.tsx''
     = Inl (Error (''No manifest entry found for '' @ dquote @ ''app/gone.tsx'' @ dquote
             @ ''. Known manifest keys: '' @ dquote @ ''app/root.tsx?client-route'' @ dquote
             @ '', '' @ dquote @ ''app/entry.client.tsx'' @ dquote
             @ '', '' @ dquote @ ''_shared-b2.js'' @ dquote))"
  by (simp add: eval_defs example_manifest_def knownManifestKeys_def Object_prototype_keys_def)

text \<open>
  Claim C8 says that \<open>resolveChunk\<close> throws when the manifest has neither key. The code
  reads \<^verbatim>\<open>viteManifest[key]\<close> and tests the result for truth, and the manifest is an object
  that inherits from \<^verbatim>\<open>Object.prototype\<close>: for the file \<^verbatim>\<open>/proj/constructor\<close>, which is under
  neither key in the manifest, the read gives the function \<^verbatim>\<open>Object\<close> and \<open>resolveChunk\<close>
  returns it as the chunk. \<open>resolveBuildAssetPaths\<close> then reads the \<^verbatim>\<open>file\<close> of that
  function, which is \<^verbatim>\<open>undefined\<close>.
\<close>

theorem resolveChunk_prototype_member:
  "map_of example_manifest ''constructor?client-route'' = None
   \<and> map_of example_manifest ''constructor'' = None
   \<and> rootRelative example_ext example_ctx ''/proj/constructor'' = ''constructor''
   \<and> resolveChunk example_ext example_ctx example_manifest ''/proj/constructor''
       = Inr (''constructor'', Inherited)
   \<and> resolveBuildAssetPaths example_ext 3 example_ctx example_manifest ''/proj/constructor'' []
       = Inr \<lparr> a_module = ''/undefined?client-route'', a_imports = [], a_css = [] \<rparr>"
  by (simp add: eval_defs example_manifest_def Object_prototype_keys_def numeral_3_eq_3)

subsection \<open>resolveDependantChunks\<close>

lemma walk_cycle:
  "walk n cyclicManifest [] (manifest_get cyclicManifest ''A'') = Inl RangeError
   \<and> walk n cyclicManifest [] (manifest_get cyclicManifest ''B'') = Inl RangeError"
proof (induction n)
  case 0
  show ?case by simp
next
  case (Suc n)
  have a: "manifest_get cyclicManifest ''A''
      = Some (''A'', Own \<lparr> c_file = ''a.js'', c_imports = Some [''B''], c_css = None \<rparr>)"
    by (simp add: manifest_get_def js_get_def cyclicManifest_def)
  have b: "manifest_get cyclicManifest ''B''
      = Some (''B'', Own \<lparr> c_file = ''b.js'', c_imports = Some [''A''], c_css = None \<rparr>)"
    by (simp add: manifest_get_def js_get_def cyclicManifest_def)
  from Suc have "walk_imports n cyclicManifest [] [''B''] = Inl RangeError"
    and "walk_imports n cyclicManifest [] [''A''] = Inl RangeError"
    by simp_all
  then show ?case
    by (simp add: a b chunks_has_def imports_of_def)
qed

text \<open>
  Claim C1 says that \<open>resolveDependantChunks\<close> returns on every manifest, also when two
  chunks import each other. \<open>walk\<close> adds a chunk to the set only after it has walked the
  chunk's imports, so on the manifest where \<^verbatim>\<open>A\<close> imports \<^verbatim>\<open>B\<close> and \<^verbatim>\<open>B\<close> imports \<^verbatim>\<open>A\<close>
  neither chunk is in the set when it is reached again: whatever the depth of the call
  stack, the recursion exhausts it and the call throws.
\<close>

theorem resolveDependantChunks_cycle:
  "resolveDependantChunks stack cyclicManifest
     [(''A'', Own \<lparr> c_file = ''a.js'', c_imports = Some [''B''], c_css = None \<rparr>)] = Inl RangeError"
proof -
  have "manifest_get cyclicManifest ''A''
      = Some (''A'', Own \<lparr> c_file = ''a.js'', c_imports = Some [''B''], c_css = None \<rparr>)"
    by (simp add: manifest_get_def js_get_def cyclicManifest_def)
  with walk_cycle [of stack] show ?thesis
    by (simp add: resolveDependantChunks_def)
qed

text \<open>
  When the walk does return, on entry chunks that were read from the manifest, the result
  holds no object twice and only objects that a read of the manifest gives: chunks of the
  manifest and members of \<^verbatim>\<open>Object.prototype\<close>.
\<close>

lemma manifest_get_fst: "manifest_get m k = Some ch \<Longrightarrow> manifest_get m (fst ch) = Some ch"
  by (auto simp: manifest_get_def)

lemma manifest_get_key:
  assumes "manifest_get m k = Some ch"
  shows "fst ch \<in> set (map fst m) \<union> set Object_prototype_keys"
proof (cases "map_of m k")
  case None
  with assms show ?thesis
    by (auto simp: manifest_get_def js_get_def split: if_splits)
next
  case (Some v)
  then have "(k, v) \<in> set m" by (rule map_of_SomeD)
  then have "k \<in> fst ` set m" by force
  moreover from assms Some have "fst ch = k"
    by (auto simp: manifest_get_def js_get_def)
  ultimately show ?thesis by simp
qed

lemma chunks_add_ok:
  "chunks_ok m cs \<Longrightarrow> manifest_get m (fst ch) = Some ch \<Longrightarrow> chunks_ok m (chunks_add cs ch)"
  by (auto simp: chunks_ok_def chunks_add_def chunks_has_def)

lemma walk_ok:
  "walk n m cs c = Inr cs' \<Longrightarrow> chunks_ok m cs
     \<Longrightarrow> (\<forall>ch. c = Some ch \<longrightarrow> manifest_get m (fst ch) = Some ch) \<Longrightarrow> chunks_ok m cs'"
  "walk_imports n m cs ks = Inr cs' \<Longrightarrow> chunks_ok m cs \<Longrightarrow> chunks_ok m cs'"
proof (induction n m cs c and n m cs ks arbitrary: cs' and cs' rule: walk_walk_imports.induct)
  case (1 m cs c)
  then show ?case by simp
next
  case (2 n m cs)
  then show ?case by simp
next
  case (3 n m cs ch)
  show ?case
  proof (cases "chunks_has cs ch")
    case True
    with 3 show ?thesis by simp
  next
    case False
    with "3.prems" obtain cs1 where
      w: "walk_imports n m cs (imports_of ch) = Inr cs1" and r: "cs' = chunks_add cs1 ch"
      by (auto split: sum.splits)
    from "3.IH" [OF False w "3.prems"(2)] have "chunks_ok m cs1" .
    with r "3.prems"(3) show ?thesis by (simp add: chunks_add_ok)
  qed
next
  case (4 n m cs)
  then show ?case by simp
next
  case (5 n m cs k rest)
  from "5.prems" obtain cs1 where
    w: "walk n m cs (manifest_get m k) = Inr cs1" and r: "walk_imports n m cs1 rest = Inr cs'"
    by (auto split: sum.splits)
  have "chunks_ok m cs1"
    by (rule "5.IH"(1) [OF w "5.prems"(2)]) (blast intro: manifest_get_fst)
  from "5.IH"(2) [OF w r this] show ?case .
qed

lemma walk_entries_ok:
  "walk_entries n m cs es = Inr cs' \<Longrightarrow> chunks_ok m cs
     \<Longrightarrow> list_all (\<lambda>e. manifest_get m (fst e) = Some e) es \<Longrightarrow> chunks_ok m cs'"
proof (induction es arbitrary: cs)
  case Nil
  then show ?case by simp
next
  case (Cons e es)
  from Cons.prems obtain cs1 where
    w: "walk n m cs (Some e) = Inr cs1" and r: "walk_entries n m cs1 es = Inr cs'"
    by (auto split: sum.splits)
  from walk_ok(1) [OF w Cons.prems(2)] Cons.prems(3) have "chunks_ok m cs1" by simp
  from Cons.IH [OF r this] Cons.prems(3) show ?case by simp
qed

lemma chunks_ok_length:
  "chunks_ok m cs \<Longrightarrow> length cs \<le> length m + length Object_prototype_keys"
proof -
  assume ok: "chunks_ok m cs"
  then have "distinct (map fst cs)" by (simp add: chunks_ok_def)
  then have "card (set (map fst cs)) = length (map fst cs)" by (rule distinct_card)
  then have "length cs = card (set (map fst cs))" by simp
  also have "\<dots> \<le> card (set (map fst m) \<union> set Object_prototype_keys)"
  proof (rule card_mono)
    show "finite (set (map fst m) \<union> set Object_prototype_keys)" by simp
    show "set (map fst cs) \<subseteq> set (map fst m) \<union> set Object_prototype_keys"
    proof
      fix k assume "k \<in> set (map fst cs)"
      then obtain c where c: "c \<in> set cs" and k: "k = fst c" by auto
      from ok c have "manifest_get m (fst c) = Some c"
        by (simp add: chunks_ok_def list_all_iff)
      then show "k \<in> set (map fst m) \<union> set Object_prototype_keys"
        unfolding k by (rule manifest_get_key)
    qed
  qed
  also have "\<dots> \<le> card (set (map fst m)) + card (set Object_prototype_keys)"
    by (rule card_Un_le)
  also have "\<dots> \<le> length m + length Object_prototype_keys"
    using card_length [of "map fst m"] card_length [of Object_prototype_keys] by simp
  finally show ?thesis .
qed

lemma resolveDependantChunks_returned:
  "resolveDependantChunks stack m es = Inr cs
     \<Longrightarrow> list_all (\<lambda>e. manifest_get m (fst e) = Some e) es
     \<Longrightarrow> distinct (map fst cs) \<and> list_all (\<lambda>c. manifest_get m (fst c) = Some c) cs
         \<and> length cs \<le> length m + 12"
proof -
  assume r: "resolveDependantChunks stack m es = Inr cs"
    and es: "list_all (\<lambda>e. manifest_get m (fst e) = Some e) es"
  have "chunks_ok m []" by (simp add: chunks_ok_def)
  with r es have ok: "chunks_ok m cs"
    unfolding resolveDependantChunks_def by (auto intro: walk_entries_ok)
  then show ?thesis
    using chunks_ok_length [OF ok] by (simp add: chunks_ok_def Object_prototype_keys_def)
qed

subsection \<open>resolveBuildAssetPaths\<close>

lemma import_urls_map:
  "import_urls pp m ks = Inr urls \<Longrightarrow> map Inr urls = map (import_url pp m) ks"
proof (induction ks arbitrary: urls)
  case Nil
  then show ?case by simp
next
  case (Cons k ks)
  from Cons.prems obtain url us where
    u: "import_url pp m k = Inr url" and r: "import_urls pp m ks = Inr us"
    and e: "urls = url # us"
    by (auto split: sum.splits)
  from Cons.IH [OF r] u e show ?case by simp
qed

lemma import_urls_distinct:
  assumes "import_urls pp m ks = Inr urls" and "distinct ks"
  shows "distinct urls \<longleftrightarrow> inj_on (import_url pp m) (set ks)"
proof -
  have "distinct urls \<longleftrightarrow> distinct (map Inr urls :: (error + string) list)"
    by (simp add: distinct_map)
  also have "\<dots> \<longleftrightarrow> distinct (map (import_url pp m) ks)"
    by (simp only: import_urls_map [OF assms(1)])
  also have "\<dots> \<longleftrightarrow> inj_on (import_url pp m) (set ks)"
    using assms(2) by (simp add: distinct_map)
  finally show ?thesis .
qed

text \<open>
  Claim C10, amended. \<open>dedupe\<close> returns the distinct elements of its input in the order
  of their first occurrence, and is idempotent. The \<^verbatim>\<open>css\<close> list that
  \<open>resolveBuildAssetPaths\<close> returns has no duplicates. Its \<^verbatim>\<open>imports\<close> list has none exactly
  when no two different import keys of the resolved chunks are given the same URL, that
  is, name the same file: the import keys are deduplicated, and each key is then replaced
  by the URL of the file of its chunk.
\<close>

theorem dedupe_and_asset_lists:
  "dedupe ([] :: 'a list) = []
   \<and> dedupe (y # ys) = y # dedupe (filter (\<lambda>z. z \<noteq> y) ys)
   \<and> distinct (dedupe xs) \<and> set (dedupe xs) = set xs
   \<and> dedupe (dedupe xs) = dedupe xs
   \<and> (resolveBuildAssetPaths x stack ctx viteManifest entryFilePath prepended = Inr r \<longrightarrow>
        distinct (a_css r)
        \<and> (\<exists>entryChunk prependedAssetChunks chunks.
              resolveChunk x ctx viteManifest entryFilePath = Inr entryChunk
            \<and> resolveChunks x ctx viteManifest prepended = Inr prependedAssetChunks
            \<and> resolveDependantChunks stack viteManifest (prependedAssetChunks @ [entryChunk])
                = Inr chunks
            \<and> (distinct (a_imports r) \<longleftrightarrow>
                 inj_on (import_url (publicPath (remixConfig ctx)) viteManifest)
                   (set (concat (map imports_of chunks))))))"
proof -
  have assets: "distinct (a_css r)
        \<and> (\<exists>entryChunk prependedAssetChunks chunks.
              resolveChunk x ctx viteManifest entryFilePath = Inr entryChunk
            \<and> resolveChunks x ctx viteManifest prepended = Inr prependedAssetChunks
            \<and> resolveDependantChunks stack viteManifest (prependedAssetChunks @ [entryChunk])
                = Inr chunks
            \<and> (distinct (a_imports r) \<longleftrightarrow>
                 inj_on (import_url (publicPath (remixConfig ctx)) viteManifest)
                   (set (concat (map imports_of chunks)))))"
    if res: "resolveBuildAssetPaths x stack ctx viteManifest entryFilePath prepended = Inr r"
  proof -
    from res obtain entryChunk prependedAssetChunks chunks where
      e: "resolveChunk x ctx viteManifest entryFilePath = Inr entryChunk"
      and p: "resolveChunks x ctx viteManifest prepended = Inr prependedAssetChunks"
      and c: "resolveDependantChunks stack viteManifest (prependedAssetChunks @ [entryChunk])
                = Inr chunks"
      and imp: "import_urls (publicPath (remixConfig ctx)) viteManifest
              (dedupe (concat (map imports_of chunks))) = Inr (a_imports r)"
      and css: "a_css r = map (\<lambda>href. publicPath (remixConfig ctx) @ href)
              (dedupe (concat (map css_of chunks)))"
      by (auto simp: resolveBuildAssetPaths_def split: sum.splits)
    have "inj_on (\<lambda>href. publicPath (remixConfig ctx) @ href) A" for A
      by (rule inj_onI) simp
    with css have "distinct (a_css r)"
      by (simp add: distinct_map dedupe_distinct)
    moreover from import_urls_distinct [OF imp dedupe_distinct]
    have "distinct (a_imports r) \<longleftrightarrow>
        inj_on (import_url (publicPath (remixConfig ctx)) viteManifest)
          (set (concat (map imports_of chunks)))"
      by (simp only: dedupe_set)
    ultimately show ?thesis using e p c by blast
  qed
  show ?thesis
    using assets by (simp add: dedupe_Nil dedupe_Cons [symmetric] dedupe_distinct dedupe_set dedupe_idem)
qed

text \<open>
  Claim C10 as stated fails where two imported keys name one file: the \<^verbatim>\<open>imports\<close> list
  holds the URL of that file twice.
\<close>

theorem resolveBuildAssetPaths_duplicate_import:
  "resolveBuildAssetPaths example_ext 3 example_ctx sharedFileManifest ''/proj/app/root.tsx'' []
     = Inr \<lparr> a_module = ''/assets/root-a1.js?client-route'',
             a_imports = [''/assets/shared.js'', ''/assets/shared.js''],
             a_css = [] \<rparr>"
  by (simp add: eval_defs sharedFileManifest_def numeral_3_eq_3)

theorem dedupe_and_asset_lists_witness:
  "resolveBuildAssetPaths example_ext 3 example_ctx example_manifest ''/proj/app/root.tsx''
       [''/proj/app/entry.client.tsx'']
     = Inr \<lparr> a_module = ''/assets/root-a1.js?client-route'',
             a_imports = [''/assets/shared-b2.js''],
             a_css = [''/assets/root-c3.css''] \<rparr>
   \<and> distinct (a_css \<lparr> a_module = ''/assets/root-a1.js?client-route'',
             a_imports = [''/assets/shared-b2.js''],
             a_css = [''/assets/root-c3.css''] \<rparr>)
   \<and> distinct (a_imports \<lparr> a_module = ''/assets/root-a1.js?client-route'',
             a_imports = [''/assets/shared-b2.js''],
             a_css = [''/assets/root-c3.css''] \<rparr>)
   \<and> inj_on (import_url ''/'' example_manifest) {''_shared-b2.js''}
   \<and> dedupe [''b'', ''a'', ''b'', ''c'', ''a''] = [''b'', ''a'', ''c'']"
proof -
  have res: "resolveBuildAssetPaths example_ext 3 example_ctx example_manifest ''/proj/app/root.tsx''
       [''/proj/app/entry.client.tsx'']
     = Inr \<lparr> a_module = ''/assets/root-a1.js?client-route'',
             a_imports = [''/assets/shared-b2.js''],
             a_css = [''/assets/root-c3.css''] \<rparr>"
    by (simp add: eval_defs example_manifest_def numeral_3_eq_3)
  have d: "dedupe [''b'', ''a'', ''b'', ''c'', ''a''] = [''b'', ''a'', ''c'']"
    by (simp add: dedupe_and_asset_lists [THEN conjunct1]
          dedupe_and_asset_lists [THEN conjunct2, THEN conjunct1])
  from dedupe_and_asset_lists [of _ _ _ example_ext 3 example_ctx example_manifest
      "''/proj/app/root.tsx''" "[''/proj/app/entry.client.tsx'']"] res d
  show ?thesis by simp
qed

subsection \<open>The route exports transform\<close>

lemma sublist_trans: "sublist a b \<Longrightarrow> sublist b c \<Longrightarrow> sublist a c"
  by (rule sublist_order.order.trans)

lemma sublist_line: "l \<in> set ls \<Longrightarrow> sublist a l \<Longrightarrow> sublist a (join sep ls)"
  by (rule sublist_trans [OF _ sublist_join])

lemmas string_tests = endsWith_def startsWith_def suffix_to_prefix sublist_Cons_right

lemmas route_defs =
  getRoute_def startsWith_def endsWith_def example_ext_def example_ctx_def spa_ctx_def
  example_exports_def fallback_module_def loader_module_def client_module_def

text \<open>
  With \<^verbatim>\<open>unstable_ssr\<close> false, the client-side transform of a route module for which the
  lexer reports an export \<^verbatim>\<open>loader\<close>, \<^verbatim>\<open>action\<close> or \<^verbatim>\<open>headers\<close> throws: the message counts
  the reported server-only exports and names each of them and the route file, all in
  backticks. Nothing is stripped.
\<close>

lemma spa_mode_server_only_exports:
  assumes "getRoute x (remixConfig ctx) id' = Some route"
    and "\<not> unstable_ssr (remixConfig ctx)"
    and "esModuleLexer_exports x code = Inr names"
    and "\<exists>e \<in> set names. e \<in> {''loader'', ''action'', ''headers''}"
  shows "\<exists>msg offending.
           routeExports_transform x ctx code id' False = Inl (Error msg)
         \<and> offending = filter (\<lambda>e. e \<in> {''loader'', ''action'', ''headers''}) names
         \<and> offending \<noteq> []
         \<and> msg = ''SPA Mode: '' @ string_of_nat (length offending)
                 @ '' invalid route export(s) in '' @ backtick @ r_file route @ backtick @ '': ''
                 @ join '', '' (map (\<lambda>e. backtick @ e @ backtick) offending)
                 @ ''. See https://remix.run/future/spa-mode for more information.''
         \<and> sublist (backtick @ r_file route @ backtick) msg
         \<and> (\<forall>e \<in> set offending. sublist (backtick @ e @ backtick) msg)"
proof -
  define offending where "offending = filter (\<lambda>e. e \<in> {''loader'', ''action'', ''headers''}) names"
  define msg where "msg = spa_invalid_exports_message route offending"
  have so: "filter (\<lambda>exp. exp \<in> set SERVER_ONLY_ROUTE_EXPORTS) names = offending"
    by (simp add: offending_def SERVER_ONLY_ROUTE_EXPORTS_def)
  from assms(4) have ne: "offending \<noteq> []"
    by (auto simp: offending_def filter_empty_conv)
  then have "spa_mode_checks x route code = Some (Error msg)"
    by (simp add: spa_mode_checks_def assms(3) so Let_def msg_def)
  with assms(1,2) have res: "routeExports_transform x ctx code id' False = Inl (Error msg)"
    by (simp add: routeExports_transform_def)
  have m: "msg = ''SPA Mode: '' @ string_of_nat (length offending)
                 @ '' invalid route export(s) in '' @ backtick @ r_file route @ backtick @ '': ''
                 @ join '', '' (map (\<lambda>e. backtick @ e @ backtick) offending)
                 @ ''. See https://remix.run/future/spa-mode for more information.''"
    by (simp add: msg_def spa_invalid_exports_message_def)
  have f: "sublist (backtick @ r_file route @ backtick) msg"
  proof -
    have "msg = (''SPA Mode: '' @ string_of_nat (length offending) @ '' invalid route export(s) in '')
        @ (backtick @ r_file route @ backtick)
        @ ('': '' @ join '', '' (map (\<lambda>e. backtick @ e @ backtick) offending)
           @ ''. See https://remix.run/future/spa-mode for more information.'')"
      by (simp add: m)
    then show ?thesis by (simp only: sublist_appendI)
  qed
  have e: "\<forall>e \<in> set offending. sublist (backtick @ e @ backtick) msg"
  proof
    fix e assume "e \<in> set offending"
    then have "sublist (backtick @ e @ backtick)
        (join '', '' (map (\<lambda>e. backtick @ e @ backtick) offending))"
      by (intro sublist_join) auto
    moreover have "msg = (''SPA Mode: '' @ string_of_nat (length offending)
          @ '' invalid route export(s) in '' @ backtick @ r_file route @ backtick @ '': '')
        @ join '', '' (map (\<lambda>e. backtick @ e @ backtick) offending)
        @ ''. See https://remix.run/future/spa-mode for more information.''"
      by (simp add: m)
    ultimately show "sublist (backtick @ e @ backtick) msg"
      by (simp only: sublist_trans [OF _ sublist_appendI])
  qed
  from res ne m f e show ?thesis unfolding offending_def [symmetric] by blast
qed

lemma spa_mode_server_only_exports_example:
  "routeExports_transform example_ext spa_ctx loader_module ''/proj/app/routes/about.tsx'' False
     = Inl (Error (''SPA Mode: 1 invalid route export(s) in '' @ backtick @ ''routes/about.tsx''
                   @ backtick @ '': '' @ backtick @ ''loader'' @ backtick
                   @ ''. See https://remix.run/future/spa-mode for more information.''))"
proof -
  have r: "getRoute example_ext (remixConfig spa_ctx) ''/proj/app/routes/about.tsx''
      = Some \<lparr> r_path = Some ''about'', r_index = None, r_caseSensitive = None,
               r_id = ''routes/about'', r_parentId = Some ''root'', r_file = ''routes/about.tsx'' \<rparr>"
    by (simp add: route_defs)
  have s: "\<not> unstable_ssr (remixConfig spa_ctx)"
    by (simp add: route_defs)
  have l: "esModuleLexer_exports example_ext loader_module = Inr [''loader'', ''default'']"
    by (simp add: route_defs)
  have e: "\<exists>e \<in> set [''loader'', ''default'']. e \<in> {''loader'', ''action'', ''headers''}"
    by simp
  have one: "string_of_nat (Suc 0) = ''1''"
    by (simp add: string_of_nat.simps digit_def)
  from spa_mode_server_only_exports [OF r s l e] one show ?thesis
    by auto
qed

text \<open>
  Claim C4 says that in SPA mode a route module whose code has a server-only export is
  rejected, and the export not silently stripped. The hook takes the exports from the
  lexer, which reports only the first name of \<^verbatim>\<open>export const meta = ..., loader = ...\<close>:
  for the route \<^verbatim>\<open>routes/about.tsx\<close> with that module both checks pass, no error is thrown,
  and the hook returns what \<^verbatim>\<open>removeExports\<close> makes of the module when asked to remove
  \<^verbatim>\<open>loader\<close>, \<^verbatim>\<open>action\<close> and \<^verbatim>\<open>headers\<close>.
\<close>

theorem spa_mode_second_declarator_stripped:
  "\<not> unstable_ssr (remixConfig spa_ctx)
   \<and> getRoute example_ext (remixConfig spa_ctx) ''/proj/app/routes/about.tsx''
       = Some \<lparr> r_path = Some ''about'', r_index = None, r_caseSensitive = None,
                r_id = ''routes/about'', r_parentId = Some ''root'', r_file = ''routes/about.tsx'' \<rparr>
   \<and> esModuleLexer_exports example_ext declarator_module = Inr [''meta'', ''default'']
   \<and> spa_mode_checks example_ext
        \<lparr> r_path = Some ''about'', r_index = None, r_caseSensitive = None,
          r_id = ''routes/about'', r_parentId = Some ''root'', r_file = ''routes/about.tsx'' \<rparr>
        declarator_module = None
   \<and> routeExports_transform example_ext spa_ctx declarator_module
        ''/proj/app/routes/about.tsx'' False
       = map_sum id Some
           (removeExports example_ext declarator_module [''loader'', ''action'', ''headers''])
   \<and> returns_code (routeExports_transform example_ext spa_ctx declarator_module
        ''/proj/app/routes/about.tsx'' False)"
  by (simp add: route_defs routeExports_transform_def spa_mode_checks_def
        SERVER_ONLY_ROUTE_EXPORTS_def declarator_module_def example_removeExports_def
        returns_code_def)

text \<open>
  Claim C5, amended. The check of \<^verbatim>\<open>HydrateFallback\<close> is made in SPA mode only, on the export
  names that the lexer reports. With \<^verbatim>\<open>unstable_ssr\<close> false, transforming a route module
  for which the lexer reports an export \<^verbatim>\<open>HydrateFallback\<close> throws when the route is not the
  root route (the error about \<^verbatim>\<open>HydrateFallback\<close>, naming the route file, when no
  server-only export is reported), and the same export on the root route passes the
  checks: the transform returns what \<^verbatim>\<open>removeExports\<close> returns. With \<^verbatim>\<open>unstable_ssr\<close> true the
  export passes on every route.
\<close>

theorem hydrate_fallback_root_only:
  assumes "getRoute x (remixConfig ctx) id' = Some route"
    and "esModuleLexer_exports x code = Inr names"
    and "''HydrateFallback'' \<in> set names"
  shows "(\<not> unstable_ssr (remixConfig ctx) \<and> r_id route \<noteq> ''root'' \<longrightarrow>
            (\<exists>msg. routeExports_transform x ctx code id' False = Inl (Error msg)))
       \<and> (\<not> unstable_ssr (remixConfig ctx) \<and> r_id route \<noteq> ''root''
            \<and> set names \<inter> {''loader'', ''action'', ''headers''} = {} \<longrightarrow>
            routeExports_transform x ctx code id' False
              = Inl (Error (''SPA Mode: Invalid '' @ backtick @ ''HydrateFallback'' @ backtick
                     @ '' export found in '' @ backtick @ r_file route @ backtick @ ''. ''
                     @ backtick @ ''HydrateFallback'' @ backtick
                     @ '' is only permitted on the root route in SPA Mode. ''
                     @ ''See https://remix.run/future/spa-mode for more information.'')))
       \<and> (\<not> unstable_ssr (remixConfig ctx) \<and> r_id route = ''root''
            \<and> set names \<inter> {''loader'', ''action'', ''headers''} = {} \<longrightarrow>
            routeExports_transform x ctx code id' False
              = (case removeExports x code [''loader'', ''action'', ''headers''] of
                   Inl e \<Rightarrow> Inl e | Inr code' \<Rightarrow> Inr (Some code')))
       \<and> (unstable_ssr (remixConfig ctx) \<longrightarrow>
            routeExports_transform x ctx code id' False
              = (case removeExports x code [''loader'', ''action'', ''headers''] of
                   Inl e \<Rightarrow> Inl e | Inr code' \<Rightarrow> Inr (Some code')))"
proof -
  have hf: "list_ex (\<lambda>exp. exp = ''HydrateFallback'') names"
    using assms(3) by (auto simp: list_ex_iff)
  have none: "filter (\<lambda>exp. exp \<in> set SERVER_ONLY_ROUTE_EXPORTS) names = []"
    if "set names \<inter> {''loader'', ''action'', ''headers''} = {}"
    using that by (auto simp: SERVER_ONLY_ROUTE_EXPORTS_def filter_empty_conv)
  have c1: "\<exists>msg. spa_mode_checks x route code = Some (Error msg)" if "r_id route \<noteq> ''root''"
    using that hf by (simp add: spa_mode_checks_def assms(2) Let_def)
  have c2: "spa_mode_checks x route code = Some (Error (spa_hydrate_fallback_message route))"
    if "r_id route \<noteq> ''root''" "set names \<inter> {''loader'', ''action'', ''headers''} = {}"
    using that(1) none [OF that(2)] hf by (simp add: spa_mode_checks_def assms(2))
  have c3: "spa_mode_checks x route code = None"
    if "r_id route = ''root''" "set names \<inter> {''loader'', ''action'', ''headers''} = {}"
    using that(1) none [OF that(2)] by (simp add: spa_mode_checks_def assms(2))
  have p1: "\<not> unstable_ssr (remixConfig ctx) \<and> r_id route \<noteq> ''root'' \<longrightarrow>
            (\<exists>msg. routeExports_transform x ctx code id' False = Inl (Error msg))"
    using c1 by (auto simp: routeExports_transform_def assms(1))
  have p2: "\<not> unstable_ssr (remixConfig ctx) \<and> r_id route \<noteq> ''root''
            \<and> set names \<inter> {''loader'', ''action'', ''headers''} = {} \<longrightarrow>
            routeExports_transform x ctx code id' False
              = Inl (Error (spa_hydrate_fallback_message route))"
    using c2 by (auto simp: routeExports_transform_def assms(1))
  have p3: "\<not> unstable_ssr (remixConfig ctx) \<and> r_id route = ''root''
            \<and> set names \<inter> {''loader'', ''action'', ''headers''} = {} \<longrightarrow>
            routeExports_transform x ctx code id' False
              = (case removeExports x code [''loader'', ''action'', ''headers''] of
                   Inl e \<Rightarrow> Inl e | Inr code' \<Rightarrow> Inr (Some code'))"
    using c3 by (auto simp: routeExports_transform_def assms(1) SERVER_ONLY_ROUTE_EXPORTS_def)
  have p4: "unstable_ssr (remixConfig ctx) \<longrightarrow>
            routeExports_transform x ctx code id' False
              = (case removeExports x code [''loader'', ''action'', ''headers''] of
                   Inl e \<Rightarrow> Inl e | Inr code' \<Rightarrow> Inr (Some code'))"
    by (simp add: routeExports_transform_def assms(1) SERVER_ONLY_ROUTE_EXPORTS_def)
  from p1 p2 p3 p4 show ?thesis
    by (simp add: spa_hydrate_fallback_message_def)
qed

text \<open>
  Claim C5 as stated fails with server-side rendering enabled: the route
  \<^verbatim>\<open>routes/about.tsx\<close> is not the root route, its module exports \<^verbatim>\<open>HydrateFallback\<close>, and
  the transform throws nothing: it returns what \<^verbatim>\<open>removeExports\<close> makes of the module.
\<close>

theorem hydrate_fallback_accepted_with_ssr:
  "unstable_ssr (remixConfig example_ctx)
   \<and> getRoute example_ext (remixConfig example_ctx) ''/proj/app/routes/about.tsx''
       = Some \<lparr> r_path = Some ''about'', r_index = None, r_caseSensitive = None,
                r_id = ''routes/about'', r_parentId = Some ''root'', r_file = ''routes/about.tsx'' \<rparr>
   \<and> esModuleLexer_exports example_ext fallback_module = Inr [''HydrateFallback'', ''default'']
   \<and> routeExports_transform example_ext example_ctx fallback_module
        ''/proj/app/routes/about.tsx'' False
       = map_sum id Some
           (removeExports example_ext fallback_module [''loader'', ''action'', ''headers''])
   \<and> returns_code (routeExports_transform example_ext example_ctx fallback_module
        ''/proj/app/routes/about.tsx'' False)"
  by (simp add: route_defs routeExports_transform_def SERVER_ONLY_ROUTE_EXPORTS_def
        example_removeExports_def returns_code_def)

theorem hydrate_fallback_root_only_witness:
  "routeExports_transform example_ext spa_ctx fallback_module ''/proj/app/routes/about.tsx'' False
     = Inl (Error (''SPA Mode: Invalid '' @ backtick @ ''HydrateFallback'' @ backtick
            @ '' export found in '' @ backtick @ ''routes/about.tsx'' @ backtick @ ''. ''
            @ backtick @ ''HydrateFallback'' @ backtick
            @ '' is only permitted on the root route in SPA Mode. ''
            @ ''See https://remix.run/future/spa-mode for more information.''))
   \<and> returns_code (routeExports_transform example_ext spa_ctx fallback_module
        ''/proj/app/root.tsx'' False)
   \<and> returns_code (routeExports_transform example_ext example_ctx fallback_module
        ''/proj/app/root.tsx'' False)"
proof -
  have about: "getRoute example_ext (remixConfig spa_ctx) ''/proj/app/routes/about.tsx''
      = Some \<lparr> r_path = Some ''about'', r_index = None, r_caseSensitive = None,
               r_id = ''routes/about'', r_parentId = Some ''root'', r_file = ''routes/about.tsx'' \<rparr>"
    by (simp add: route_defs)
  have root: "getRoute example_ext (remixConfig spa_ctx) ''/proj/app/root.tsx''
      = Some \<lparr> r_path = Some [], r_index = None, r_caseSensitive = None,
               r_id = ''root'', r_parentId = None, r_file = ''root.tsx'' \<rparr>"
    by (simp add: route_defs)
  have root': "getRoute example_ext (remixConfig example_ctx) ''/proj/app/root.tsx''
      = Some \<lparr> r_path = Some [], r_index = None, r_caseSensitive = None,
               r_id = ''root'', r_parentId = None, r_file = ''root.tsx'' \<rparr>"
    by (simp add: route_defs)
  have l: "esModuleLexer_exports example_ext fallback_module = Inr [''HydrateFallback'', ''default'']"
    by (simp add: route_defs)
  have h: "''HydrateFallback'' \<in> set [''HydrateFallback'', ''default'']"
    by simp
  have s: "\<not> unstable_ssr (remixConfig spa_ctx)" "unstable_ssr (remixConfig example_ctx)"
    by (simp_all add: route_defs)
  have rm: "removeExports example_ext fallback_module [''loader'', ''action'', ''headers'']
      = Inr (join newline [''export function HydrateFallback() {}'',
                           ''export default function Page() {}''])"
    by (simp add: example_ext_def example_removeExports_def)
  from hydrate_fallback_root_only [OF about l h] hydrate_fallback_root_only [OF root l h]
    hydrate_fallback_root_only [OF root' l h] s rm
  show ?thesis by (simp add: returns_code_def)
qed

subsection \<open>The client-route variant\<close>

text \<open>
  Claim C6. For an id that ends with \<^verbatim>\<open>?client-route\<close>, when the exports of the route module
  have been read, the transform returns one export statement from the route file. Its
  names are the export names of the route module that are in the allowlist of nine, in
  their order, and no other name.
\<close>

theorem client_route_reexports:
  assumes "endsWith id' ''?client-route''"
    and "getRouteModuleExports x viteChildCompiler ctx (replace_first ''?client-route'' [] id') None
           = Inr sourceExports"
  shows "\<exists>clientExports.
           snd (remix_transform x viteChildCompiler ctx cssModulesManifest code id')
             = Inr (Some (''export { '' @ join '', '' clientExports @ '' } from '' @ dquote @ ''./''
                          @ path_basename x (replace_first ''?client-route'' [] id')
                          @ dquote @ '';''))
         \<and> clientExports
             = filter (\<lambda>exportName. exportName \<in>
                 {''clientAction'', ''clientLoader'', ''default'', ''ErrorBoundary'', ''handle'',
                  ''HydrateFallback'', ''links'', ''meta'', ''shouldRevalidate''}) sourceExports
         \<and> set clientExports
             = set sourceExports \<inter>
                 {''clientAction'', ''clientLoader'', ''default'', ''ErrorBoundary'', ''handle'',
                  ''HydrateFallback'', ''links'', ''meta'', ''shouldRevalidate''}"
proof -
  have allow: "set CLIENT_ROUTE_EXPORTS
      = {''clientAction'', ''clientLoader'', ''default'', ''ErrorBoundary'', ''handle'',
         ''HydrateFallback'', ''links'', ''meta'', ''shouldRevalidate''}"
    by (simp add: CLIENT_ROUTE_EXPORTS_def)
  have "snd (remix_transform x viteChildCompiler ctx cssModulesManifest code id')
      = Inr (Some (''export { ''
          @ join '', '' (filter (\<lambda>exportName. exportName \<in> set CLIENT_ROUTE_EXPORTS) sourceExports)
          @ '' } from '' @ dquote @ ''./''
          @ path_basename x (replace_first ''?client-route'' [] id') @ dquote @ '';''))"
    using assms by (simp add: remix_transform_def CLIENT_ROUTE_QUERY_STRING_def Let_def)
  moreover have "set (filter (\<lambda>exportName. exportName \<in> set CLIENT_ROUTE_EXPORTS) sourceExports)
      = set sourceExports \<inter> set CLIENT_ROUTE_EXPORTS"
    by auto
  ultimately show ?thesis unfolding allow by blast
qed

theorem client_route_reexports_witness:
  "snd (remix_transform example_ext (Some example_compiler) example_ctx Map.empty
          client_module ''/proj/app/routes/about.tsx?client-route'')
     = Inr (Some (''export { clientLoader, meta, default } from '' @ dquote @ ''./about.tsx''
                  @ dquote @ '';''))
   \<and> snd (remix_transform example_ext (Some example_compiler) example_ctx Map.empty
          loader_module ''/proj/app/routes/data.tsx?client-route'')
     = Inr (Some (''export { default } from '' @ dquote @ ''./data.tsx'' @ dquote @ '';''))"
proof -
  have e1: "endsWith ''/proj/app/routes/about.tsx?client-route'' ''?client-route''"
    and e2: "endsWith ''/proj/app/routes/data.tsx?client-route'' ''?client-route''"
    by (simp_all add: string_tests)
  have r1: "replace_first ''?client-route'' [] ''/proj/app/routes/about.tsx?client-route''
      = ''/proj/app/routes/about.tsx''"
    and r2: "replace_first ''?client-route'' [] ''/proj/app/routes/data.tsx?client-route''
      = ''/proj/app/routes/data.tsx''"
    by simp_all
  have g1: "getRouteModuleExports example_ext (Some example_compiler) example_ctx
       (replace_first ''?client-route'' [] ''/proj/app/routes/about.tsx?client-route'') None
      = Inr [''clientLoader'', ''meta'', ''default'']"
    by (simp add: getRouteModuleExports_def route_defs example_files_def example_compiler_def)
  have g2: "getRouteModuleExports example_ext (Some example_compiler) example_ctx
       (replace_first ''?client-route'' [] ''/proj/app/routes/data.tsx?client-route'') None
      = Inr [''loader'', ''default'']"
    by (simp add: getRouteModuleExports_def route_defs example_files_def example_compiler_def)
  have b: "path_basename example_ext ''/proj/app/routes/about.tsx'' = ''about.tsx''"
    "path_basename example_ext ''/proj/app/routes/data.tsx'' = ''data.tsx''"
    by (simp_all add: example_ext_def)
  from client_route_reexports [OF e1 g1, of Map.empty client_module]
    client_route_reexports [OF e2 g2, of Map.empty loader_module] r1 r2 b
  show ?thesis by auto
qed

subsection \<open>Server-only files\<close>

lemma server_only_message_names:
  "sublist (squote @ id' @ squote @ (if isRoute then '' imported by route '' else '' imported by '')
            @ squote @ importerShort @ squote)
     (server_only_message x id' importerShort isRoute)"
proof -
  let ?l = "''    '' @ squote @ id' @ squote
      @ (if isRoute then '' imported by route '' else '' imported by '')
      @ squote @ importerShort @ squote"
  have a: "sublist (squote @ id' @ squote
      @ (if isRoute then '' imported by route '' else '' imported by '')
      @ squote @ importerShort @ squote) ?l"
    by (rule sublist_append_leftI)
  have "sublist ?l (server_only_message x id' importerShort isRoute)"
    unfolding server_only_message_def
    by (cases isRoute) (simp_all only: if_True if_False, (rule sublist_join, simp)+)
  with a show ?thesis by (rule sublist_trans)
qed

text \<open>
  Claim C7, amended. In the client graph (\<^verbatim>\<open>options.ssr\<close> not set), outside the plugin's own
  nested resolution, an id that resolves to a \<^verbatim>\<open>.server\<close> file or into a \<^verbatim>\<open>/.server/\<close>
  directory, imported from a known importer, throws, unless the command is not
  \<^verbatim>\<open>build\<close> and the importer ends with \<^verbatim>\<open>.html\<close>. The message names the id as written and
  the importer relative to the project root, and says \<^verbatim>\<open>imported by route\<close> when the
  importer is a route file.
\<close>

theorem dot_server_import_rejected:
  assumes "options = Some opts"
    and "o_ssr opts \<noteq> Some True"
    and "o_custom_remix_dot_server opts \<noteq> Some True"
    and "this_resolve id' (Some importer) = Some resolved_id"
    and "serverFileRE_test resolved_id \<or> serverDirRE_test resolved_id"
    and "importer \<noteq> []"
    and "viteCommand = build \<or> \<not> endsWith importer ''.html''"
    and "importerShort = normalizePath x (path_relative x (rootDirectory ctx) importer)"
  shows "\<exists>msg. dotServer_resolveId x viteCommand ctx this_resolve id' (Some importer) options
                 = Inl (Error msg)
          \<and> msg = server_only_message x id' importerShort
                    (getRoute x (remixConfig ctx) importer \<noteq> None)
          \<and> (getRoute x (remixConfig ctx) importer \<noteq> None \<longrightarrow>
                sublist (squote @ id' @ squote @ '' imported by route '' @ squote @ importerShort
                         @ squote) msg)
          \<and> (getRoute x (remixConfig ctx) importer = None \<longrightarrow>
                sublist (squote @ id' @ squote @ '' imported by '' @ squote @ importerShort
                         @ squote) msg)"
proof -
  let ?msg = "server_only_message x id' importerShort
      (getRoute x (remixConfig ctx) importer \<noteq> None)"
  have r: "dotServer_resolveId x viteCommand ctx this_resolve id' (Some importer) options
      = Inl (Error (server_only_message x id' importerShort
                      (getRoute x (remixConfig ctx) importer \<noteq> None)))"
  proof -
    have c: "\<not> (viteCommand \<noteq> build \<and> endsWith importer ''.html'')"
      using assms(7) by blast
    have d: "\<not> \<not> (serverFileRE_test resolved_id \<or> serverDirRE_test resolved_id)"
      using assms(5) by blast
    show ?thesis
      unfolding dotServer_resolveId_def Let_def
      by (simp only: assms(1,2,3,4,6) assms(8) [symmetric] c d option.case if_False)
  qed
  have s1: "sublist (squote @ id' @ squote @ '' imported by route '' @ squote @ importerShort @ squote)
        (server_only_message x id' importerShort (getRoute x (remixConfig ctx) importer \<noteq> None))"
    if "getRoute x (remixConfig ctx) importer \<noteq> None"
    using server_only_message_names [of id' True importerShort x] that
    by (simp only: if_True simp_thms)
  have s2: "sublist (squote @ id' @ squote @ '' imported by '' @ squote @ importerShort @ squote)
        (server_only_message x id' importerShort (getRoute x (remixConfig ctx) importer \<noteq> None))"
    if "getRoute x (remixConfig ctx) importer = None"
    using server_only_message_names [of id' False importerShort x] that
    by (simp only: if_False simp_thms)
  show ?thesis
  proof (intro exI [of _ ?msg] conjI impI)
    show "dotServer_resolveId x viteCommand ctx this_resolve id' (Some importer) options
        = Inl (Error ?msg)" by (rule r)
    show "?msg = ?msg" by (rule refl)
    show "sublist (squote @ id' @ squote @ '' imported by route '' @ squote @ importerShort @ squote)
        ?msg" if "getRoute x (remixConfig ctx) importer \<noteq> None"
      using that by (rule s1)
    show "sublist (squote @ id' @ squote @ '' imported by '' @ squote @ importerShort @ squote) ?msg"
      if "getRoute x (remixConfig ctx) importer = None"
      using that by (rule s2)
  qed
qed

text \<open>
  Claim C7 as stated fails in development for an importer that ends with \<^verbatim>\<open>.html\<close>: the
  hook returns without an error.
\<close>

theorem dot_server_html_importer_passes:
  "serverFileRE_test ''/proj/app/db.server.ts''
   \<and> dotServer_resolveId example_ext serve example_ctx (\<lambda>i imp. Some ''/proj/app/db.server.ts'')
        ''/app/db.server.ts'' (Some ''/proj/index.html'')
        (Some \<lparr> o_ssr = None, o_custom_remix_dot_server = None \<rparr>) = Inr None"
  by (simp add: dotServer_resolveId_def serverFileRE_test_def server_extensions_def string_tests)

theorem dot_server_import_rejected_witness:
  "dotServer_resolveId example_ext build example_ctx (\<lambda>i imp. Some ''/proj/app/db.server.ts'')
     ''~/db.server'' (Some ''/proj/app/routes/about.tsx'')
     (Some \<lparr> o_ssr = None, o_custom_remix_dot_server = None \<rparr>)
     = Inl (Error (server_only_message example_ext ''~/db.server'' ''app/routes/about.tsx'' True))
   \<and> dotServer_resolveId example_ext serve example_ctx (\<lambda>i imp. Some ''/proj/app/.server/db.ts'')
     ''./.server/db'' (Some ''/proj/app/utils.ts'')
     (Some \<lparr> o_ssr = Some False, o_custom_remix_dot_server = None \<rparr>)
     = Inl (Error (server_only_message example_ext ''./.server/db'' ''app/utils.ts'' False))"
proof -
  have f: "serverFileRE_test ''/proj/app/db.server.ts'' \<or> serverDirRE_test ''/proj/app/db.server.ts''"
    by (simp add: serverFileRE_test_def server_extensions_def string_tests)
  have d: "serverFileRE_test ''/proj/app/.server/db.ts'' \<or> serverDirRE_test ''/proj/app/.server/db.ts''"
    by (simp add: serverDirRE_test_def string_tests)
  have r1: "getRoute example_ext (remixConfig example_ctx) ''/proj/app/routes/about.tsx'' \<noteq> None"
    by (simp add: route_defs)
  have r2: "getRoute example_ext (remixConfig example_ctx) ''/proj/app/utils.ts'' = None"
    by (simp add: route_defs)
  have s1: "''app/routes/about.tsx''
      = normalizePath example_ext (path_relative example_ext (rootDirectory example_ctx)
          ''/proj/app/routes/about.tsx'')"
    by (simp add: route_defs)
  have s2: "''app/utils.ts''
      = normalizePath example_ext (path_relative example_ext (rootDirectory example_ctx)
          ''/proj/app/utils.ts'')"
    by (simp add: route_defs)
  have h: "\<not> endsWith ''/proj/app/utils.ts'' ''.html''"
    by (simp add: string_tests)
  have t1: "(\<lambda>i imp. Some ''/proj/app/db.server.ts'') ''~/db.server''
      (Some ''/proj/app/routes/about.tsx'') = Some ''/proj/app/db.server.ts''"
    by simp
  have t2: "(\<lambda>i imp. Some ''/proj/app/.server/db.ts'') ''./.server/db''
      (Some ''/proj/app/utils.ts'') = Some ''/proj/app/.server/db.ts''"
    by simp
  have o1: "o_ssr \<lparr> o_ssr = None, o_custom_remix_dot_server = None \<rparr> \<noteq> Some True"
    "o_custom_remix_dot_server \<lparr> o_ssr = None, o_custom_remix_dot_server = None \<rparr> \<noteq> Some True"
    by simp_all
  have o2: "o_ssr \<lparr> o_ssr = Some False, o_custom_remix_dot_server = None \<rparr> \<noteq> Some True"
    "o_custom_remix_dot_server \<lparr> o_ssr = Some False, o_custom_remix_dot_server = None \<rparr>
       \<noteq> Some True"
    by simp_all
  have n1: "''/proj/app/routes/about.tsx'' \<noteq> []" and n2: "''/proj/app/utils.ts'' \<noteq> []"
    by simp_all
  have c1: "build = build \<or> \<not> endsWith ''/proj/app/routes/about.tsx'' ''.html''"
    by simp
  have c2: "serve = build \<or> \<not> endsWith ''/proj/app/utils.ts'' ''.html''"
    using h by simp
  from dot_server_import_rejected
      [where this_resolve = "\<lambda>i imp. Some ''/proj/app/db.server.ts''", OF refl o1 t1 f n1 c1 s1]
    dot_server_import_rejected
      [where this_resolve = "\<lambda>i imp. Some ''/proj/app/.server/db.ts''", OF refl o2 t2 d n2 c2 s2]
    r1 r2
  show ?thesis by (simp del: sublist_code)
qed

subsection \<open>The watcher and hot updates\<close>

lemma invalidateVirtualModules_invalidated:
  "invalidated (invalidateVirtualModules x srv)
     = invalidated srv
       @ filter (\<lambda>i. i \<in> set (moduleGraph srv))
           [vmod_resolve x (vmod_id x ''server-build''),
            vmod_resolve x (vmod_id x ''server-manifest''),
            vmod_resolve x (vmod_id x ''browser-manifest'')]"
  by (simp add: invalidateVirtualModules_def vmods_def serverBuildId_def serverManifestId_def
        browserManifestId_def)

lemma invalidateVirtualModules_frame:
  "ws_sent (invalidateVirtualModules x srv) = ws_sent srv"
  "moduleGraph (invalidateVirtualModules x srv) = moduleGraph srv"
  by (simp_all add: invalidateVirtualModules_def vmods_def)

lemmas watcher_defs =
  example_state_def example_server_def new_route_ctx_def example_stringify_def
  appFileAddedOrRemoved_def viteConfigChanged_def

text \<open>
  Claim C2, amended. When the watcher's handler has recomputed the context, it invalidates
  the virtual modules if and only if the new config differs from the previous one under
  \<^verbatim>\<open>JSON.stringify\<close>: with equal serialisations the dev server is left as it was, and with
  different ones \<^verbatim>\<open>invalidateModule\<close> is called on the server build, the server manifest
  and the browser manifest, each if the module graph has it. A hot update of a file that
  is no route sends one \<^verbatim>\<open>remix:hmr\<close> event with \<^verbatim>\<open>null\<close>. A hot update of a route file
  sends one event with the new metadata of the route, whether or not it invalidates the
  virtual modules, when the server manifest and the metadata can be read; when loading
  the server manifest or reading the metadata throws, the hook throws that error, sends
  nothing and invalidates nothing.
\<close>

theorem watcher_and_hot_update:
  "(p_configFile st = Some configFile \<and> configFile \<noteq> []
      \<and> (appFileAddedOrRemoved x st eventName filepath
           \<or> viteConfigChanged x configFile eventName filepath)
      \<and> updateRemixPluginContext = Inr ctx' \<longrightarrow>
      (\<exists>st'. watcher_on_all x updateRemixPluginContext eventName filepath st = (None, st')
         \<and> p_ctx st' = ctx'
         \<and> (JSON_stringify_config x (remixConfig (p_ctx st))
               = JSON_stringify_config x (remixConfig ctx')
             \<longrightarrow> p_server st' = p_server st)
         \<and> (JSON_stringify_config x (remixConfig (p_ctx st))
               \<noteq> JSON_stringify_config x (remixConfig ctx')
             \<longrightarrow> invalidated (p_server st')
                   = invalidated (p_server st)
                     @ filter (\<lambda>i. i \<in> set (moduleGraph (p_server st)))
                         [vmod_resolve x (vmod_id x ''server-build''),
                          vmod_resolve x (vmod_id x ''server-manifest''),
                          vmod_resolve x (vmod_id x ''browser-manifest'')])))
   \<and> (getRoute x (remixConfig ctx) file = None \<longrightarrow>
        (\<exists>srv'. handleHotUpdate x ctx viteChildCompiler serverManifest read srv file = (None, srv')
           \<and> ws_sent srv' = ws_sent srv @ [Custom ''remix:hmr'' None]
           \<and> invalidated srv' = invalidated srv))
   \<and> (getRoute x (remixConfig ctx) file = Some route
        \<and> serverManifest = Inr manifest_routes
        \<and> getRouteMetadata x ctx viteChildCompiler route (Some read) = Inr newRouteMetadata \<longrightarrow>
        (\<exists>srv'. handleHotUpdate x ctx viteChildCompiler serverManifest read srv file = (None, srv')
           \<and> ws_sent srv' = ws_sent srv @ [Custom ''remix:hmr'' (Some newRouteMetadata)]
           \<and> invalidated srv'
               = (if route_exports_changed (js_get manifest_routes (r_id route)) newRouteMetadata
                  then invalidated (invalidateVirtualModules x srv) else invalidated srv)))
   \<and> (getRoute x (remixConfig ctx) file = Some route \<and> serverManifest = Inl e \<longrightarrow>
        handleHotUpdate x ctx viteChildCompiler serverManifest read srv file = (Some e, srv))
   \<and> (getRoute x (remixConfig ctx) file = Some route
        \<and> serverManifest = Inr manifest_routes
        \<and> getRouteMetadata x ctx viteChildCompiler route (Some read) = Inl e \<longrightarrow>
        handleHotUpdate x ctx viteChildCompiler serverManifest read srv file = (Some e, srv))"
proof (intro conjI impI)
  assume h: "p_configFile st = Some configFile \<and> configFile \<noteq> []
      \<and> (appFileAddedOrRemoved x st eventName filepath
           \<or> viteConfigChanged x configFile eventName filepath)
      \<and> updateRemixPluginContext = Inr ctx'"
  show "\<exists>st'. watcher_on_all x updateRemixPluginContext eventName filepath st = (None, st')
         \<and> p_ctx st' = ctx'
         \<and> (JSON_stringify_config x (remixConfig (p_ctx st))
               = JSON_stringify_config x (remixConfig ctx')
             \<longrightarrow> p_server st' = p_server st)
         \<and> (JSON_stringify_config x (remixConfig (p_ctx st))
               \<noteq> JSON_stringify_config x (remixConfig ctx')
             \<longrightarrow> invalidated (p_server st')
                   = invalidated (p_server st)
                     @ filter (\<lambda>i. i \<in> set (moduleGraph (p_server st)))
                         [vmod_resolve x (vmod_id x ''server-build''),
                          vmod_resolve x (vmod_id x ''server-manifest''),
                          vmod_resolve x (vmod_id x ''browser-manifest'')])"
  proof (cases "JSON_stringify_config x (remixConfig (p_ctx st))
               = JSON_stringify_config x (remixConfig ctx')")
    case True
    with h have "watcher_on_all x updateRemixPluginContext eventName filepath st
        = (None, st \<lparr> p_ctx := ctx', p_updates := Suc (p_updates st) \<rparr>)"
      by (simp add: watcher_on_all_def isEqualJson_def Let_def)
    with True show ?thesis by simp
  next
    case False
    with h have "watcher_on_all x updateRemixPluginContext eventName filepath st
        = (None, st \<lparr> p_ctx := ctx', p_updates := Suc (p_updates st),
                       p_server := invalidateVirtualModules x (p_server st) \<rparr>)"
      by (simp add: watcher_on_all_def isEqualJson_def Let_def)
    with False show ?thesis by (simp add: invalidateVirtualModules_invalidated)
  qed
next
  assume "getRoute x (remixConfig ctx) file = None"
  then show "\<exists>srv'. handleHotUpdate x ctx viteChildCompiler serverManifest read srv file = (None, srv')
           \<and> ws_sent srv' = ws_sent srv @ [Custom ''remix:hmr'' None]
           \<and> invalidated srv' = invalidated srv"
    by (simp add: handleHotUpdate_def ws_send_def)
next
  assume "getRoute x (remixConfig ctx) file = Some route
        \<and> serverManifest = Inr manifest_routes
        \<and> getRouteMetadata x ctx viteChildCompiler route (Some read) = Inr newRouteMetadata"
  then show "\<exists>srv'. handleHotUpdate x ctx viteChildCompiler serverManifest read srv file = (None, srv')
           \<and> ws_sent srv' = ws_sent srv @ [Custom ''remix:hmr'' (Some newRouteMetadata)]
           \<and> invalidated srv'
               = (if route_exports_changed (js_get manifest_routes (r_id route)) newRouteMetadata
                  then invalidated (invalidateVirtualModules x srv) else invalidated srv)"
    by (simp add: handleHotUpdate_def ws_send_def Let_def invalidateVirtualModules_frame)
next
  assume "getRoute x (remixConfig ctx) file = Some route \<and> serverManifest = Inl e"
  then show "handleHotUpdate x ctx viteChildCompiler serverManifest read srv file = (Some e, srv)"
    by (simp add: handleHotUpdate_def)
next
  assume "getRoute x (remixConfig ctx) file = Some route
        \<and> serverManifest = Inr manifest_routes
        \<and> getRouteMetadata x ctx viteChildCompiler route (Some read) = Inl e"
  then show "handleHotUpdate x ctx viteChildCompiler serverManifest read srv file = (Some e, srv)"
    by (simp add: handleHotUpdate_def)
qed

theorem watcher_and_hot_update_witness:
  "invalidated (p_server (snd (watcher_on_all example_ext (Inr new_route_ctx) ''add''
        ''/proj/app/routes/new.tsx'' example_state)))
     = [CHR 0x00 # ''virtual:remix/server-build'', CHR 0x00 # ''virtual:remix/server-manifest'']
   \<and> p_server (snd (watcher_on_all example_ext (Inr example_ctx) ''change''
        ''/proj/vite.config.ts'' example_state)) = example_server
   \<and> ws_sent (snd (handleHotUpdate example_ext example_ctx (Some example_compiler) (Inr [])
        (Inr client_module) example_server ''/proj/app/utils.ts''))
     = [Custom ''remix:hmr'' None]
   \<and> ws_sent (snd (handleHotUpdate example_ext example_ctx (Some example_compiler)
        (Inr [(''routes/about'', about_metadata)])
        (Inr client_module) example_server ''/proj/app/routes/about.tsx''))
     = [Custom ''remix:hmr'' (Some about_metadata)]
   \<and> invalidated (snd (handleHotUpdate example_ext example_ctx (Some example_compiler)
        (Inr [(''routes/about'', about_metadata)])
        (Inr client_module) example_server ''/proj/app/routes/about.tsx'')) = []
   \<and> ws_sent (snd (handleHotUpdate example_ext example_ctx (Some example_compiler)
        (Inr [(''routes/about'', about_metadata)])
        (Inr loader_module) example_server ''/proj/app/routes/about.tsx''))
     = [Custom ''remix:hmr''
          (Some (about_metadata \<lparr> m_hasLoader := True, m_hasClientLoader := False \<rparr>))]
   \<and> invalidated (snd (handleHotUpdate example_ext example_ctx (Some example_compiler)
        (Inr [(''routes/about'', about_metadata)])
        (Inr loader_module) example_server ''/proj/app/routes/about.tsx''))
     = [CHR 0x00 # ''virtual:remix/server-build'', CHR 0x00 # ''virtual:remix/server-manifest'']
   \<and> handleHotUpdate example_ext example_ctx (Some example_compiler)
        (Inl (Error ''Failed to load the server manifest''))
        (Inr client_module) example_server ''/proj/app/routes/about.tsx''
     = (Some (Error ''Failed to load the server manifest''), example_server)
   \<and> handleHotUpdate example_ext example_ctx (Some example_compiler)
        (Inr [(''routes/about'', about_metadata)])
        (Inr broken_module) example_server ''/proj/app/routes/about.tsx''
     = (Some (Error ''Parse error''), example_server)"
proof -
  have cf: "p_configFile example_state = Some ''/proj/vite.config.ts''"
    "''/proj/vite.config.ts'' \<noteq> []"
    by (simp_all add: example_state_def)
  have t1: "appFileAddedOrRemoved example_ext example_state ''add'' ''/proj/app/routes/new.tsx''"
    by (simp add: watcher_defs route_defs)
  have t2: "viteConfigChanged example_ext ''/proj/vite.config.ts'' ''change'' ''/proj/vite.config.ts''"
    by (simp add: watcher_defs)
  have j1: "JSON_stringify_config example_ext (remixConfig (p_ctx example_state))
      \<noteq> JSON_stringify_config example_ext (remixConfig new_route_ctx)"
    by (simp add: watcher_defs route_defs)
  have g0: "getRoute example_ext (remixConfig example_ctx) ''/proj/app/utils.ts'' = None"
    by (simp add: route_defs)
  have g1: "getRoute example_ext (remixConfig example_ctx) ''/proj/app/routes/about.tsx''
      = Some \<lparr> r_path = Some ''about'', r_index = None, r_caseSensitive = None,
               r_id = ''routes/about'', r_parentId = Some ''root'', r_file = ''routes/about.tsx'' \<rparr>"
    by (simp add: route_defs)
  have m1: "getRouteMetadata example_ext example_ctx (Some example_compiler)
      \<lparr> r_path = Some ''about'', r_index = None, r_caseSensitive = None,
        r_id = ''routes/about'', r_parentId = Some ''root'', r_file = ''routes/about.tsx'' \<rparr>
      (Some (Inr client_module)) = Inr about_metadata"
    by (simp add: getRouteMetadata_def getRouteModuleExports_def resolveRelativeRouteFilePath_def
          route_defs example_compiler_def about_metadata_def)
  have m2: "getRouteMetadata example_ext example_ctx (Some example_compiler)
      \<lparr> r_path = Some ''about'', r_index = None, r_caseSensitive = None,
        r_id = ''routes/about'', r_parentId = Some ''root'', r_file = ''routes/about.tsx'' \<rparr>
      (Some (Inr loader_module))
      = Inr (about_metadata \<lparr> m_hasLoader := True, m_hasClientLoader := False \<rparr>)"
    by (simp add: getRouteMetadata_def getRouteModuleExports_def resolveRelativeRouteFilePath_def
          route_defs example_compiler_def about_metadata_def)
  have m3: "getRouteMetadata example_ext example_ctx (Some example_compiler)
      \<lparr> r_path = Some ''about'', r_index = None, r_caseSensitive = None,
        r_id = ''routes/about'', r_parentId = Some ''root'', r_file = ''routes/about.tsx'' \<rparr>
      (Some (Inr broken_module)) = Inl (Error ''Parse error'')"
    by (simp add: getRouteMetadata_def getRouteModuleExports_def route_defs example_compiler_def
          broken_module_def declarator_module_def)
  have c1: "\<not> route_exports_changed (js_get [(''routes/about'', about_metadata)] ''routes/about'')
      about_metadata"
    by (simp add: route_exports_changed_def js_get_def)
  have c2: "route_exports_changed (js_get [(''routes/about'', about_metadata)] ''routes/about'')
      (about_metadata \<lparr> m_hasLoader := True, m_hasClientLoader := False \<rparr>)"
    by (simp add: route_exports_changed_def js_get_def about_metadata_def)
  have i: "invalidated (invalidateVirtualModules example_ext example_server)
      = [CHR 0x00 # ''virtual:remix/server-build'', CHR 0x00 # ''virtual:remix/server-manifest'']"
    by (simp add: invalidateVirtualModules_invalidated example_server_def example_ext_def)
  note w1 = watcher_and_hot_update [THEN conjunct1, rule_format]
  note w2 = watcher_and_hot_update [THEN conjunct2, THEN conjunct1, rule_format]
  note w3 = watcher_and_hot_update [THEN conjunct2, THEN conjunct2, THEN conjunct1, rule_format]
  note w4 = watcher_and_hot_update
    [THEN conjunct2, THEN conjunct2, THEN conjunct2, THEN conjunct1, rule_format]
  note w5 = watcher_and_hot_update
    [THEN conjunct2, THEN conjunct2, THEN conjunct2, THEN conjunct2, rule_format]
  from w1 [OF conjI [OF cf(1) conjI [OF cf(2) conjI [OF disjI1 [OF t1] refl [of "Inr new_route_ctx"]]]]] j1
  have a: "invalidated (p_server (snd (watcher_on_all example_ext (Inr new_route_ctx) ''add''
        ''/proj/app/routes/new.tsx'' example_state)))
     = [CHR 0x00 # ''virtual:remix/server-build'', CHR 0x00 # ''virtual:remix/server-manifest'']"
    by (auto simp: example_state_def example_server_def example_ext_def)
  from w1 [OF conjI [OF cf(1) conjI [OF cf(2) conjI [OF disjI2 [OF t2] refl [of "Inr example_ctx"]]]]]
  have b: "p_server (snd (watcher_on_all example_ext (Inr example_ctx) ''change''
        ''/proj/vite.config.ts'' example_state)) = example_server"
    by (auto simp: example_state_def)
  from w2 [OF g0, of "Some example_compiler" "Inr []" "Inr client_module" example_server]
  have c: "ws_sent (snd (handleHotUpdate example_ext example_ctx (Some example_compiler) (Inr [])
        (Inr client_module) example_server ''/proj/app/utils.ts'')) = [Custom ''remix:hmr'' None]"
    by (auto simp: example_server_def)
  from w3 [OF conjI [OF g1 conjI [OF refl [of "Inr [(''routes/about'', about_metadata)]"] m1]], of example_server] c1
  have d: "ws_sent (snd (handleHotUpdate example_ext example_ctx (Some example_compiler)
        (Inr [(''routes/about'', about_metadata)])
        (Inr client_module) example_server ''/proj/app/routes/about.tsx''))
     = [Custom ''remix:hmr'' (Some about_metadata)]
   \<and> invalidated (snd (handleHotUpdate example_ext example_ctx (Some example_compiler)
        (Inr [(''routes/about'', about_metadata)])
        (Inr client_module) example_server ''/proj/app/routes/about.tsx'')) = []"
    by (auto simp: example_server_def)
  from w3 [OF conjI [OF g1 conjI [OF refl [of "Inr [(''routes/about'', about_metadata)]"] m2]], of example_server] c2 i
  have e: "ws_sent (snd (handleHotUpdate example_ext example_ctx (Some example_compiler)
        (Inr [(''routes/about'', about_metadata)])
        (Inr loader_module) example_server ''/proj/app/routes/about.tsx''))
     = [Custom ''remix:hmr''
          (Some (about_metadata \<lparr> m_hasLoader := True, m_hasClientLoader := False \<rparr>))]
   \<and> invalidated (snd (handleHotUpdate example_ext example_ctx (Some example_compiler)
        (Inr [(''routes/about'', about_metadata)])
        (Inr loader_module) example_server ''/proj/app/routes/about.tsx''))
     = [CHR 0x00 # ''virtual:remix/server-build'', CHR 0x00 # ''virtual:remix/server-manifest'']"
    by (auto simp: example_server_def)
  have f: "handleHotUpdate example_ext example_ctx (Some example_compiler)
        (Inl (Error ''Failed to load the server manifest''))
        (Inr client_module) example_server ''/proj/app/routes/about.tsx''
     = (Some (Error ''Failed to load the server manifest''), example_server)"
    by (rule w4 [OF conjI [OF g1 refl]])
  have g: "handleHotUpdate example_ext example_ctx (Some example_compiler)
        (Inr [(''routes/about'', about_metadata)])
        (Inr broken_module) example_server ''/proj/app/routes/about.tsx''
     = (Some (Error ''Parse error''), example_server)"
    by (rule w5 [OF conjI [OF g1 conjI [OF refl m3]]])
  from a b c d e f g show ?thesis by blast
qed

text \<open>
  Claim C2 as stated fails for a route file that cannot be read as a module: the hot
  update of \<^verbatim>\<open>routes/about.tsx\<close>, saved with an unclosed brace, throws when the export names
  are read, and the dev server is left as it was, with no message sent.
\<close>

theorem hot_update_of_broken_route_sends_nothing:
  "getRoute example_ext (remixConfig example_ctx) ''/proj/app/routes/about.tsx''
     = Some \<lparr> r_path = Some ''about'', r_index = None, r_caseSensitive = None,
              r_id = ''routes/about'', r_parentId = Some ''root'', r_file = ''routes/about.tsx'' \<rparr>
   \<and> fst (handleHotUpdate example_ext example_ctx (Some example_compiler)
        (Inr [(''routes/about'', about_metadata)])
        (Inr broken_module) example_server ''/proj/app/routes/about.tsx'') \<noteq> None
   \<and> snd (handleHotUpdate example_ext example_ctx (Some example_compiler)
        (Inr [(''routes/about'', about_metadata)])
        (Inr broken_module) example_server ''/proj/app/routes/about.tsx'') = example_server
   \<and> ws_sent example_server = []"
  by (simp add: handleHotUpdate_def getRouteMetadata_def getRouteModuleExports_def route_defs
        example_compiler_def broken_module_def declarator_module_def example_server_def)

text \<open>
  An event that is neither an \<^verbatim>\<open>add\<close> or \<^verbatim>\<open>unlink\<close> of a path that starts with the app
  directory's path, nor a \<^verbatim>\<open>change\<close> of the Vite config file, leaves the state as it is.
\<close>

lemma watcher_other_events:
  assumes "\<not> appFileAddedOrRemoved x st eventName filepath"
    and "\<forall>configFile. p_configFile st = Some configFile
           \<longrightarrow> \<not> viteConfigChanged x configFile eventName filepath"
  shows "snd (watcher_on_all x updateRemixPluginContext eventName filepath st) = st"
  using assms by (simp add: watcher_on_all_def split: option.splits)

text \<open>
  Claim C9 says that an \<^verbatim>\<open>add\<close> of a file that is not under the app directory triggers
  neither a recomputation nor an invalidation. The handler tests whether the path starts
  with the path of the app directory, as strings: \<^verbatim>\<open>/proj/app-old/routes/new.tsx\<close> is not
  under \<^verbatim>\<open>/proj/app\<close> and starts with it, so the context is recomputed and, the config
  having changed, the virtual modules are invalidated.
\<close>

theorem watcher_recomputes_for_sibling_directory:
  "watcher_on_all example_ext (Inr new_route_ctx) ''add'' ''/proj/app-old/routes/new.tsx''
     example_state
   = (None, \<lparr> p_ctx = new_route_ctx,
              p_configFile = Some ''/proj/vite.config.ts'',
              p_server = example_server \<lparr> invalidated :=
                [CHR 0x00 # ''virtual:remix/server-build'',
                 CHR 0x00 # ''virtual:remix/server-manifest''] \<rparr>,
              p_updates = 1 \<rparr>)"
  by (simp add: watcher_on_all_def watcher_defs route_defs isEqualJson_def
        invalidateVirtualModules_def vmods_def serverBuildId_def serverManifestId_def
        browserManifestId_def)

subsection \<open>The version of the production manifest\<close>

lemma replicate_numeral_Cons: "replicate (numeral k) y = y # replicate (pred_numeral k) y"
  by (simp add: numeral_eq_Suc)

text \<open>
  The digest of \<^verbatim>\<open>abc\<close>, as the standard gives it, and the compression of the blocks of the
  two serialisations below: they share their first five blocks.
\<close>

lemma sha_abc_block:
  "compress H256 [1633837952, 0, 0, 0, 0, 0, 0, 0, 0, 0, 0, 0, 0, 0, 0, 24]
   = [3128432319, 2399260650, 1094795486, 1571693091, 2953011619, 2518121116, 3021012833, 4060091821]"
  by (simp add: compress_def K256_def H256_def Sigma0_def Sigma1_def sigma0_def sigma1_def Ch_def
        Maj_def rotr_def shr_def add32_def)

lemma sha_abc:
  "node_sha256_hex ''abc'' = ''ba7816bf8f01cfea414140de5dae2223b00361a396177a9cb410ff61f20015ad''"
proof -
  have "blocks (be32 (pad (utf8 ''abc''))) = [[1633837952, 0, 0, 0, 0, 0, 0, 0, 0, 0, 0, 0, 0, 0, 0, 24]]"
    by (simp add: utf8_def pad_def replicate_numeral_Cons)
  then show ?thesis
    unfolding node_sha256_hex_def sha256_def
    by (simp only: foldl.simps sha_abc_block) (simp add: hex32_def hex_digit_def)
qed

lemma sha_block_1:
  "compress H256
     [2065851758, 1953659170, 981148269, 1868854636, 1696741922, 794915699, 1702130479, 1701737586, 2033083244, 1768255092, 761541678, 1785937763, 1818846574, 1949135471, 1970562338, 740452717]
   = [2149818035, 2261333981, 795969157, 237786649, 616101680, 652472398, 1953156209, 3136998566]"
  by (simp add: compress_def K256_def H256_def Sigma0_def Sigma1_def sigma0_def sigma1_def Ch_def Maj_def rotr_def shr_def add32_def)

lemma sha_block_2:
  "compress [2149818035, 2261333981, 795969157, 237786649, 616101680, 652472398, 1953156209, 3136998566]
     [1886351988, 1931623003, 573530483, 1936028787, 796092513, 1919247405, 1647455850, 1931631916, 576942963, 574249821, 2100044402, 1869968485, 1931623035, 577924975, 1948400251, 577332258]
   = [1991885722, 3700388379, 3316538222, 1227548367, 1187892346, 3845587266, 3509282944, 2973942612]"
  by (simp add: compress_def K256_def Sigma0_def Sigma1_def sigma0_def sigma1_def Ch_def Maj_def rotr_def shr_def add32_def)

lemma sha_block_3:
  "compress [1991885722, 3700388379, 3316538222, 1227548367, 1187892346, 3845587266, 3509282944, 2973942612]
     [975336047, 1869881900, 577790324, 1747073570, 573317736, 1634943331, 1953066862, 574252641, 1819501868, 577266035, 1282367844, 1701978682, 1717660787, 1697391208, 1634943852, 1768255092]
   = [2238458587, 122268389, 3322920162, 86186502, 516725625, 1944858972, 830686744, 583480089]"
  by (simp add: compress_def K256_def Sigma0_def Sigma1_def sigma0_def sigma1_def Ch_def Maj_def rotr_def shr_def add32_def)

lemma sha_block_4:
  "compress [2238458587, 122268389, 3322920162, 86186502, 516725625, 1944858972, 830686744, 583480089]
     [1097036905, 1869488698, 1717660787, 1697391208, 1634943852, 1768255092, 1282367844, 1701978682, 1717660787, 1697391208, 1634944370, 1919906370, 1869966948, 1634892066, 979788140, 1936010274]
   = [687006293, 2263809446, 2299068371, 2547552703, 1891996177, 1231585092, 2940966378, 1533180393]"
  by (simp add: compress_def K256_def Sigma0_def Sigma1_def sigma0_def sigma1_def Ch_def Maj_def rotr_def shr_def add32_def)

lemma sha_block_5:
  "compress [687006293, 2263809446, 2299068371, 2547552703, 1891996177, 1231585092, 2940966378, 1533180393]
     [1836016757, 1818567226, 573530483, 1936028787, 796028783, 1949131057, 778728255, 1668049253, 1853107570, 1869968485, 573317737, 1836085106, 1953702458, 1528967009, 1936942452, 1932489576]
   = [626864115, 337475983, 966988304, 3040221322, 830212158, 3513719424, 1484308058, 2953019313]"
  by (simp add: compress_def K256_def Sigma0_def Sigma1_def sigma0_def sigma1_def Ch_def Maj_def rotr_def shr_def add32_def)

lemma sha_block_6a:
  "compress [626864115, 337475983, 966988304, 3040221322, 830212158, 3513719424, 1484308058, 2953019313]
     [1634887012, 761410094, 1785930333, 740451187, 1931623003, 573530483, 1936028787, 796028783, 1949118512, 808478257, 859319907, 1936925277, 2105376128, 0, 0, 2968]
   = [4057516773, 12995885, 4146405225, 2344778165, 4163435119, 2445681185, 2378480420, 4091523689]"
  by (simp add: compress_def K256_def Sigma0_def Sigma1_def sigma0_def sigma1_def Ch_def Maj_def rotr_def shr_def add32_def)

lemma sha_block_6b:
  "compress [626864115, 337475983, 966988304, 3040221322, 830212158, 3513719424, 1484308058, 2953019313]
     [1634887012, 761410094, 1785930333, 740451187, 1931623003, 573530483, 1936028787, 796028783, 1949118512, 808596066, 1647783523, 1936925277, 2105376128, 0, 0, 2968]
   = [4057516773, 1651262754, 3055318831, 1586728515, 1701589788, 4203786573, 3732561949, 633508340]"
  by (simp add: compress_def K256_def Sigma0_def Sigma1_def sigma0_def sigma1_def Ch_def Maj_def rotr_def shr_def add32_def)

lemmas json_defs =
  fingerprintedValues_json_def assets_json_def route_json_def js_prop_def json_quote_def
  json_escape_def dquote_def built_entry_def built_routes_def

lemma blocks_a:
  "blocks (be32 (pad (utf8 (JSON_stringify
      (fingerprintedValues_json built_entry (built_routes ''/assets/root-0000f138.css''))))))
   = [[2065851758, 1953659170, 981148269, 1868854636, 1696741922, 794915699, 1702130479, 1701737586, 2033083244, 1768255092, 761541678, 1785937763, 1818846574, 1949135471, 1970562338, 740452717],
      [1886351988, 1931623003, 573530483, 1936028787, 796092513, 1919247405, 1647455850, 1931631916, 576942963, 574249821, 2100044402, 1869968485, 1931623035, 577924975, 1948400251, 577332258],
      [975336047, 1869881900, 577790324, 1747073570, 573317736, 1634943331, 1953066862, 574252641, 1819501868, 577266035, 1282367844, 1701978682, 1717660787, 1697391208, 1634943852, 1768255092],
      [1097036905, 1869488698, 1717660787, 1697391208, 1634943852, 1768255092, 1282367844, 1701978682, 1717660787, 1697391208, 1634944370, 1919906370, 1869966948, 1634892066, 979788140, 1936010274],
      [1836016757, 1818567226, 573530483, 1936028787, 796028783, 1949131057, 778728255, 1668049253, 1853107570, 1869968485, 573317737, 1836085106, 1953702458, 1528967009, 1936942452, 1932489576],
      [1634887012, 761410094, 1785930333, 740451187, 1931623003, 573530483, 1936028787, 796028783, 1949118512, 808478257, 859319907, 1936925277, 2105376128, 0, 0, 2968]]"
  by (simp add: json_defs utf8_def pad_def replicate_numeral_Cons)

lemma blocks_b:
  "blocks (be32 (pad (utf8 (JSON_stringify
      (fingerprintedValues_json built_entry (built_routes ''/assets/root-00022bb7.css''))))))
   = [[2065851758, 1953659170, 981148269, 1868854636, 1696741922, 794915699, 1702130479, 1701737586, 2033083244, 1768255092, 761541678, 1785937763, 1818846574, 1949135471, 1970562338, 740452717],
      [1886351988, 1931623003, 573530483, 1936028787, 796092513, 1919247405, 1647455850, 1931631916, 576942963, 574249821, 2100044402, 1869968485, 1931623035, 577924975, 1948400251, 577332258],
      [975336047, 1869881900, 577790324, 1747073570, 573317736, 1634943331, 1953066862, 574252641, 1819501868, 577266035, 1282367844, 1701978682, 1717660787, 1697391208, 1634943852, 1768255092],
      [1097036905, 1869488698, 1717660787, 1697391208, 1634943852, 1768255092, 1282367844, 1701978682, 1717660787, 1697391208, 1634944370, 1919906370, 1869966948, 1634892066, 979788140, 1936010274],
      [1836016757, 1818567226, 573530483, 1936028787, 796028783, 1949131057, 778728255, 1668049253, 1853107570, 1869968485, 573317737, 1836085106, 1953702458, 1528967009, 1936942452, 1932489576],
      [1634887012, 761410094, 1785930333, 740451187, 1931623003, 573530483, 1936028787, 796028783, 1949118512, 808596066, 1647783523, 1936925277, 2105376128, 0, 0, 2968]]"
  by (simp add: json_defs utf8_def pad_def replicate_numeral_Cons)

lemmas sha_blocks =
  sha_block_1 sha_block_2 sha_block_3 sha_block_4 sha_block_5 sha_block_6a sha_block_6b

lemma digest_a:
  "node_sha256_hex (JSON_stringify
      (fingerprintedValues_json built_entry (built_routes ''/assets/root-0000f138.css'')))
   = ''f1d8cae500c64d2df7251f698bc279b5f828fa6f91c622218dc4bb24f3dfb269''"
  unfolding node_sha256_hex_def sha256_def blocks_a
  by (simp only: foldl.simps sha_blocks) (simp add: hex32_def hex_digit_def)

lemma digest_b:
  "node_sha256_hex (JSON_stringify
      (fingerprintedValues_json built_entry (built_routes ''/assets/root-00022bb7.css'')))
   = ''f1d8cae5626c4522b61c772f5e938e43656c331cfa90b14dde7a601d25c291f4''"
  unfolding node_sha256_hex_def sha256_def blocks_b
  by (simp only: foldl.simps sha_blocks) (simp add: hex32_def hex_digit_def)

lemmas build_defs =
  createBrowserManifestForBuild_def loadViteManifest_def getClientBuildDirectory_def
  Object_prototype_keys_def
  getRouteManifestModuleExports_def getRouteModuleExports_def getHash_def
  disk_ext_def styled_manifest_def single_route_ctx_def example_files_def example_compiler_def

lemma build_a:
  "createBrowserManifestForBuild (disk_ext (styled_manifest ''assets/root-0000f138.css'')) 3
     (Some example_compiler) single_route_ctx
   = Inr (\<lparr> bm_entry = built_entry, bm_routes = built_routes ''/assets/root-0000f138.css'',
            bm_url = ''/assets/manifest-f1d8cae5.js'', bm_version = ''f1d8cae5'' \<rparr>,
          (''/proj/build/client/assets/manifest-f1d8cae5.js'',
           ''window.__remixManifest=''
           @ JSON_stringify (manifest_json
               \<lparr> bm_entry = built_entry, bm_routes = built_routes ''/assets/root-0000f138.css'',
                 bm_url = ''/assets/manifest-f1d8cae5.js'', bm_version = ''f1d8cae5'' \<rparr>)
           @ '';''))"
  by (simp add: build_defs eval_defs route_defs numeral_3_eq_3 built_entry_def built_routes_def Let_def
        digest_a [unfolded built_entry_def built_routes_def])

lemma build_b:
  "createBrowserManifestForBuild (disk_ext (styled_manifest ''assets/root-00022bb7.css'')) 3
     (Some example_compiler) single_route_ctx
   = Inr (\<lparr> bm_entry = built_entry, bm_routes = built_routes ''/assets/root-00022bb7.css'',
            bm_url = ''/assets/manifest-f1d8cae5.js'', bm_version = ''f1d8cae5'' \<rparr>,
          (''/proj/build/client/assets/manifest-f1d8cae5.js'',
           ''window.__remixManifest=''
           @ JSON_stringify (manifest_json
               \<lparr> bm_entry = built_entry, bm_routes = built_routes ''/assets/root-00022bb7.css'',
                 bm_url = ''/assets/manifest-f1d8cae5.js'', bm_version = ''f1d8cae5'' \<rparr>)
           @ '';''))"
  by (simp add: build_defs eval_defs route_defs numeral_3_eq_3 built_entry_def built_routes_def Let_def
        digest_b [unfolded built_entry_def built_routes_def])

lemma build_a_other:
  "createBrowserManifestForBuild (disk_ext (styled_manifest ''assets/root-0000f138.css'')) 3
     (Some example_compiler) other_entry_ctx
   = Inr (\<lparr> bm_entry = built_entry, bm_routes = built_routes ''/assets/root-0000f138.css'',
            bm_url = ''/assets/manifest-f1d8cae5.js'', bm_version = ''f1d8cae5'' \<rparr>,
          (''/proj/build/client/assets/manifest-f1d8cae5.js'',
           ''window.__remixManifest=''
           @ JSON_stringify (manifest_json
               \<lparr> bm_entry = built_entry, bm_routes = built_routes ''/assets/root-0000f138.css'',
                 bm_url = ''/assets/manifest-f1d8cae5.js'', bm_version = ''f1d8cae5'' \<rparr>)
           @ '';''))"
  by (simp add: build_defs eval_defs route_defs numeral_3_eq_3 built_entry_def built_routes_def Let_def
        other_entry_ctx_def digest_a [unfolded built_entry_def built_routes_def])

lemma createBrowserManifestForBuild_version:
  assumes "createBrowserManifestForBuild x stack viteChildCompiler ctx = Inr (m, written)"
  shows "bm_version m
           = take 8 (sha256_hex x (JSON_stringify (fingerprintedValues_json (bm_entry m) (bm_routes m))))"
    and "bm_url m = publicPath (remixConfig ctx) @ ''assets/manifest-'' @ bm_version m @ ''.js''"
  using assms
  by (auto simp: createBrowserManifestForBuild_def getHash_def Let_def
           split: sum.splits option.splits)

text \<open>
  Claim C3, amended. The version of the production manifest is the first eight hexadecimal
  digits of the SHA-256 digest of the serialised \<^verbatim>\<open>{ entry, routes }\<close>, and the URL of the
  manifest is made from it. So two syntheses that use the same digest function and resolve
  the same entry and routes give the same version, whatever else differs between their
  contexts, manifests and compilers. (That a change of an asset path changes the version
  is not part of it: eight digits are kept.)
\<close>

theorem manifest_version_of_entry_and_routes:
  assumes "createBrowserManifestForBuild x stack viteChildCompiler ctx = Inr (m, written)"
    and "createBrowserManifestForBuild x' stack' viteChildCompiler' ctx' = Inr (m', written')"
    and "sha256_hex x' = sha256_hex x"
  shows "bm_version m
           = take 8 (sha256_hex x (JSON_stringify (fingerprintedValues_json (bm_entry m) (bm_routes m))))
       \<and> bm_url m = publicPath (remixConfig ctx) @ ''assets/manifest-'' @ bm_version m @ ''.js''
       \<and> (bm_entry m' = bm_entry m \<and> bm_routes m' = bm_routes m \<longrightarrow> bm_version m' = bm_version m)"
  using createBrowserManifestForBuild_version [OF assms(1)]
    createBrowserManifestForBuild_version (1) [OF assms(2)] assms(3)
  by simp

theorem manifest_version_of_entry_and_routes_witness:
  "bm_version (fst (projr (createBrowserManifestForBuild
        (disk_ext (styled_manifest ''assets/root-0000f138.css'')) 3 (Some example_compiler)
        single_route_ctx)))
     = take 8 (node_sha256_hex (JSON_stringify (fingerprintedValues_json built_entry
         (built_routes ''/assets/root-0000f138.css''))))
   \<and> bm_url (fst (projr (createBrowserManifestForBuild
        (disk_ext (styled_manifest ''assets/root-0000f138.css'')) 3 (Some example_compiler)
        single_route_ctx)))
     = ''/assets/manifest-f1d8cae5.js''
   \<and> bm_version (fst (projr (createBrowserManifestForBuild
        (disk_ext (styled_manifest ''assets/root-0000f138.css'')) 3 (Some example_compiler)
        other_entry_ctx)))
     = bm_version (fst (projr (createBrowserManifestForBuild
        (disk_ext (styled_manifest ''assets/root-0000f138.css'')) 3 (Some example_compiler)
        single_route_ctx)))"
proof -
  have h: "sha256_hex (disk_ext (styled_manifest ''assets/root-0000f138.css''))
      = sha256_hex (disk_ext (styled_manifest ''assets/root-0000f138.css''))"
    by (rule refl)
  have s: "sha256_hex (disk_ext (styled_manifest ''assets/root-0000f138.css'')) = node_sha256_hex"
    by (simp add: disk_ext_def example_ext_def)
  have p: "publicPath (remixConfig single_route_ctx) = ''/''"
    by (simp add: single_route_ctx_def example_ctx_def)
  from manifest_version_of_entry_and_routes [OF build_a build_a_other h] s p
  show ?thesis by (simp add: build_a build_a_other)
qed

text \<open>
  Claim C3 as stated fails: the two Vite manifests differ in the style sheet of the root
  route, \<^verbatim>\<open>assets/root-0000f138.css\<close> and \<^verbatim>\<open>assets/root-00022bb7.css\<close>, the resolved routes
  differ in that asset path, and both syntheses give the version \<^verbatim>\<open>f1d8cae5\<close>.
\<close>

theorem manifest_version_collision:
  "map_sum id (\<lambda>r. (bm_version (fst r), map (\<lambda>p. m_css (snd p)) (bm_routes (fst r))))
     (createBrowserManifestForBuild (disk_ext (styled_manifest ''assets/root-0000f138.css'')) 3
        (Some example_compiler) single_route_ctx)
     = Inr (''f1d8cae5'', [Some [''/assets/root-0000f138.css'']])
   \<and> map_sum id (\<lambda>r. (bm_version (fst r), map (\<lambda>p. m_css (snd p)) (bm_routes (fst r))))
     (createBrowserManifestForBuild (disk_ext (styled_manifest ''assets/root-00022bb7.css'')) 3
        (Some example_compiler) single_route_ctx)
     = Inr (''f1d8cae5'', [Some [''/assets/root-00022bb7.css'']])"
  by (simp add: build_a build_b built_routes_def)

end
